theory Spec2Isabelle
  imports Complex_Main "HOL-Library.Word" "HOL-Library.Sublist"
begin

section \<open>Data model of the SVG loader\<close>

text \<open>
  The development embeds \<^verbatim>\<open>graphics/src/SVGLoader.cc\<close>. The C++ \<^verbatim>\<open>double\<close> is
  idealised as \<^typ>\<open>real\<close>: infinities and NaN are outside the model, and so is
  rounding, with one exception: the counter \<^verbatim>\<open>t\<close> of \<^verbatim>\<open>cubicBezier\<close> and the step
  added to it, whose rounding decides how many points a curve gets, are rounded to
  \<^verbatim>\<open>double\<close> (\<open>fl\<close> below). The functions that write into an out-parameter take its
  value on entry as an argument and return its value on exit. Messages sent to the console (\<^verbatim>\<open>gzerr\<close>,
  \<^verbatim>\<open>gzwarn\<close>, \<^verbatim>\<open>gzmsg\<close>) are collected, in order, in a list of diagnostics; a
  message is kept as its fixed text, without the values streamed into it. The vectors,
  matrices and angles of gz-math are modelled by what the loader uses of them.
\<close>

type_synonym Vector2d = "real \<times> real"

abbreviation X :: "Vector2d \<Rightarrow> real" where "X p \<equiv> fst p"
abbreviation Y :: "Vector2d \<Rightarrow> real" where "Y p \<equiv> snd p"

datatype Matrix3d = Matrix3d real real real real real real real real real

definition Identity :: Matrix3d where
  "Identity = Matrix3d 1 0 0 0 1 0 0 0 1"

record SVGCommand =
  cmd :: char
  numbers :: "real list"

record SVGPath =
  id :: string
  style :: string
  transform :: Matrix3d
  subpaths :: "SVGCommand list list"
  polylines :: "Vector2d list list"

datatype diag = Err string | Warn string | Msg string

text \<open>
  What the C++ leaves undefined or throws is a value of the model:
  \<^item> \<open>OutOfBounds\<close>: an element of a vector is read that does not exist
    (\<^verbatim>\<open>operator[]\<close> past the end, \<^verbatim>\<open>front()\<close> or \<^verbatim>\<open>back()\<close> of an empty vector);
    the C++ has undefined behaviour there and reports nothing;
  \<^item> \<open>BadCast\<close>: a \<^verbatim>\<open>double\<close> outside the range of \<^verbatim>\<open>unsigned int\<close> is cast to it
    (undefined behaviour as well);
  \<^item> \<open>InvalidArgument\<close>: \<^verbatim>\<open>stod\<close> throws on a string that is no number.
\<close>

datatype error = OutOfBounds | BadCast | InvalidArgument

text \<open>ASCII \<^verbatim>\<open>tolower\<close> in the C locale.\<close>

definition tolower :: "char \<Rightarrow> char" where
  "tolower c = (let n = (of_char c :: nat) in
     if 65 \<le> n \<and> n \<le> 90 then char_of (n + 32) else c)"

section \<open>Splitting the command list into subpaths\<close>

text \<open>
  The loop of \<^verbatim>\<open>SplitSubpaths\<close>: a move command opens a new subpath, then the command
  is appended to \<^verbatim>\<open>_subpaths.back()\<close>. When no subpath exists yet, \<^verbatim>\<open>back()\<close> reads
  an empty vector.
\<close>

fun SplitSubpaths_loop ::
  "SVGCommand list \<Rightarrow> SVGCommand list list \<Rightarrow> error + SVGCommand list list" where
  "SplitSubpaths_loop [] sps = Inr sps"
| "SplitSubpaths_loop (c # cs) sps =
     (let sps1 = (if tolower (cmd c) = CHR ''m'' then sps @ [[]] else sps) in
      if sps1 = [] then Inl OutOfBounds
      else SplitSubpaths_loop cs (butlast sps1 @ [last sps1 @ [c]]))"

definition SplitSubpaths ::
  "SVGCommand list \<Rightarrow> SVGCommand list list
     \<Rightarrow> error + (bool \<times> SVGCommand list list \<times> diag list)" where
  "SplitSubpaths cmds sps =
     (if cmds = [] then Inr (False, sps, [Err ''SVGPath has no commands''])
      else case SplitSubpaths_loop cmds sps of
             Inl e \<Rightarrow> Inl e
           | Inr sps' \<Rightarrow> Inr (True, sps', []))"

section \<open>Expanding repeated commands\<close>

text \<open>
  The table of \<^verbatim>\<open>ExpandCommands\<close>: \<^verbatim>\<open>numberCount\<close> starts at 0 and is set by the
  first letter test that holds (the tests exclude one another). The letters \<^verbatim>\<open>q\<close> and
  \<^verbatim>\<open>z\<close> have no entry and keep 0.
\<close>

definition numberCount_of :: "char \<Rightarrow> nat" where
  "numberCount_of c =
     (if tolower c = CHR ''a'' then 7
      else if tolower c = CHR ''c'' then 6
      else if tolower c = CHR ''m'' then 2
      else if tolower c = CHR ''l'' then 2
      else if tolower c = CHR ''v'' then 1
      else if tolower c = CHR ''h'' then 1
      else 0)"

text \<open>
  The inner \<^verbatim>\<open>for\<close> loop copies \<^verbatim>\<open>xCmd.numbers[i + n]\<close> for \<open>i < numberCount\<close>; an
  index past the end of the numbers is an out-of-bounds read.
\<close>

function copy_group :: "real list \<Rightarrow> nat \<Rightarrow> nat \<Rightarrow> nat \<Rightarrow> real list \<Rightarrow> error + real list" where
  "copy_group xs n numberCount i acc =
     (if i < numberCount
      then (if i + n < length xs
            then copy_group xs n numberCount (Suc i) (acc @ [xs ! (i + n)])
            else Inl OutOfBounds)
      else Inr acc)"
  by pat_completeness auto
termination
  by (relation "measure (\<lambda>(xs, n, numberCount, i, acc). numberCount - i)") auto

declare copy_group.simps [simp del]

text \<open>
  The \<^verbatim>\<open>while (n < size)\<close> loop. Nothing bounds the number of its rounds when
  \<^verbatim>\<open>numberCount\<close> is 0, so it is a partial function: \<open>None\<close> is "does not return".
  The counter \<^verbatim>\<open>n\<close> is an \<^verbatim>\<open>unsigned int\<close> in the source; the model takes the
  numbers of one command to be fewer than \<open>2 ^ 32\<close>, so that it does not wrap.
\<close>

partial_function (option) expand_while ::
  "SVGCommand \<Rightarrow> nat \<Rightarrow> nat \<Rightarrow> SVGCommand list \<Rightarrow> (error + SVGCommand list) option" where
  "expand_while xCmd numberCount n subpath =
     (if n < length (numbers xCmd)
      then (case copy_group (numbers xCmd) n numberCount 0 [] of
              Inl e \<Rightarrow> Some (Inl e)
            | Inr ns \<Rightarrow>
                expand_while xCmd numberCount (n + numberCount)
                  (subpath @ [\<lparr>cmd = cmd xCmd, numbers = ns\<rparr>]))
      else Some (Inr subpath))"

definition expand_command ::
  "SVGCommand \<Rightarrow> SVGCommand list \<Rightarrow> (error + SVGCommand list) option" where
  "expand_command xCmd subpath =
     expand_while xCmd (numberCount_of (cmd xCmd)) 0
       (if tolower (cmd xCmd) = CHR ''z'' then subpath @ [xCmd] else subpath)"

fun expand_subpath ::
  "SVGCommand list \<Rightarrow> SVGCommand list \<Rightarrow> (error + SVGCommand list) option" where
  "expand_subpath [] subpath = Some (Inr subpath)"
| "expand_subpath (xCmd # rest) subpath =
     (case expand_command xCmd subpath of
        None \<Rightarrow> None
      | Some (Inl e) \<Rightarrow> Some (Inl e)
      | Some (Inr subpath') \<Rightarrow> expand_subpath rest subpath')"

fun ExpandCommands :: "SVGCommand list list \<Rightarrow> SVGPath \<Rightarrow> (error + SVGPath) option" where
  "ExpandCommands [] path = Some (Inr path)"
| "ExpandCommands (compressedSubpath # rest) path =
     (case expand_subpath compressedSubpath [] of
        None \<Rightarrow> None
      | Some (Inl e) \<Rightarrow> Some (Inl e)
      | Some (Inr subpath) \<Rightarrow>
          ExpandCommands rest (path\<lparr>subpaths := subpaths path @ [subpath]\<rparr>))"

section \<open>Parsing the tokens of the path data into commands\<close>

definition lookup :: string where
  "lookup = ''aAcCmMqQlLvVhHzZ''"

text \<open>
  \<^verbatim>\<open>lookup.find(token[0]) != npos\<close>. For an empty token \<^verbatim>\<open>token[0]\<close> is the
  terminating NUL, which \<^verbatim>\<open>lookup\<close> does not hold.
\<close>

definition is_new_command :: "string \<Rightarrow> bool" where
  "is_new_command token = (case token of [] \<Rightarrow> False | c # _ \<Rightarrow> c \<in> set lookup)"

text \<open>
  The helpers \<^verbatim>\<open>split\<close> (gz/common/Util.hh) and \<^verbatim>\<open>atof\<close> are not among the source
  files: the parser takes them as the parameters \<open>split\<close> and \<open>atof\<close>. The state of the
  loop over the tokens is \<^verbatim>\<open>cmds\<close>, \<^verbatim>\<open>lastCmd\<close> and \<^verbatim>\<open>numbers\<close>.
\<close>

fun PathCommands_loop ::
  "(string \<Rightarrow> string \<Rightarrow> string list) \<Rightarrow> (string \<Rightarrow> real) \<Rightarrow> string list
     \<Rightarrow> SVGCommand list \<times> char \<times> real list \<Rightarrow> SVGCommand list \<times> char \<times> real list" where
  "PathCommands_loop split atof [] st = st"
| "PathCommands_loop split atof (token # rest) (cmds, lastCmd, nums) =
     (if \<not> is_new_command token
      then PathCommands_loop split atof rest
             (cmds, lastCmd, nums @ map atof (split token '',''))
      else PathCommands_loop split atof rest
             ((if lastCmd \<noteq> CHR ''x'' then cmds @ [\<lparr>cmd = lastCmd, numbers = nums\<rparr>] else cmds),
              hd token, []))"

text \<open>The vector \<^verbatim>\<open>cmds\<close> when \<^verbatim>\<open>PathCommands\<close> hands it to \<^verbatim>\<open>SplitSubpaths\<close>.\<close>

definition PathCommands_cmds ::
  "(string \<Rightarrow> string \<Rightarrow> string list) \<Rightarrow> (string \<Rightarrow> real) \<Rightarrow> string list \<Rightarrow> SVGCommand list" where
  "PathCommands_cmds split atof tokens =
     (case PathCommands_loop split atof tokens ([], CHR ''x'', []) of
        (cmds, lastCmd, nums) \<Rightarrow>
          if lastCmd \<noteq> CHR ''x'' then cmds @ [\<lparr>cmd = lastCmd, numbers = nums\<rparr>] else cmds)"

section \<open>Curve tessellation\<close>

definition Distance :: "Vector2d \<Rightarrow> Vector2d \<Rightarrow> real" where
  "Distance a b = sqrt ((X a - X b) * (X a - X b) + (Y a - Y b) * (Y a - Y b))"

definition bezierInterpolate ::
  "real \<Rightarrow> Vector2d \<Rightarrow> Vector2d \<Rightarrow> Vector2d \<Rightarrow> Vector2d \<Rightarrow> Vector2d" where
  "bezierInterpolate t p0 p1 p2 p3 =
     (let t_1 = 1 - t;
          t_1_2 = t_1 * t_1;
          t_1_3 = t_1_2 * t_1;
          t2 = t * t;
          t3 = t2 * t
      in (t_1_3 * X p0 + 3 * t * t_1_2 * X p1 + 3 * t2 * t_1 * X p2 + t3 * X p3,
          t_1_3 * Y p0 + 3 * t * t_1_2 * Y p1 + 3 * t2 * t_1 * Y p2 + t3 * Y p3))"

text \<open>
  Rounding to \<^verbatim>\<open>double\<close> (IEEE 754 binary64, round to nearest, ties to even): a number
  \<open>x\<close> with \<open>2 ^ e \<le> \<bar>x\<bar> < 2 ^ (e + 1)\<close> is rounded to a multiple of \<open>2 ^ (e - 52)\<close>, and a
  number below \<open>2 ^ (- 1022)\<close> to a multiple of \<open>2 ^ (- 1074)\<close>. Overflow is not
  modelled.
\<close>

definition round_even :: "real \<Rightarrow> int" where
  "round_even y =
     (let f = \<lfloor>y\<rfloor>; r = y - of_int f
      in if r < 1 / 2 then f
         else if 1 / 2 < r then f + 1
         else if even f then f else f + 1)"

definition fl :: "real \<Rightarrow> real" where
  "fl x =
     (if x = 0 then 0
      else (let e = max \<lfloor>log 2 \<bar>x\<bar>\<rfloor> (- 1022);
                q = 2 powr (of_int e - 52)
            in of_int (round_even (x / q)) * q))"

text \<open>
  The loop \<^verbatim>\<open>while (t < 1.0)\<close> of \<^verbatim>\<open>cubicBezier\<close>, with \<^verbatim>\<open>t += _step\<close> as the rounded
  sum. It does not return for a step that is not positive, so it is a partial function.
\<close>

partial_function (option) cubicBezier_while ::
  "real \<Rightarrow> Vector2d \<Rightarrow> Vector2d \<Rightarrow> Vector2d \<Rightarrow> Vector2d \<Rightarrow> real \<Rightarrow> Vector2d list
     \<Rightarrow> Vector2d list option" where
  "cubicBezier_while t p0 p1 p2 p3 step points =
     (if t < 1
      then cubicBezier_while (fl (t + step)) p0 p1 p2 p3 step
             (points @ [bezierInterpolate t p0 p1 p2 p3])
      else Some points)"

definition cubicBezier ::
  "Vector2d \<Rightarrow> Vector2d \<Rightarrow> Vector2d \<Rightarrow> Vector2d \<Rightarrow> real \<Rightarrow> Vector2d list
     \<Rightarrow> Vector2d list option" where
  "cubicBezier p0 p1 p2 p3 step points =
     (case cubicBezier_while step p0 p1 p2 p3 step points of
        None \<Rightarrow> None
      | Some points' \<Rightarrow> Some (points' @ [p3]))"

text \<open>
  The constructor \<^verbatim>\<open>SVGLoader(const unsigned int _samples)\<close> fixes the step:
  \<^verbatim>\<open>resolution = 1.0 / std::max(1u, _samples)\<close>, the rounded quotient.
\<close>

definition SVGLoader_resolution :: "32 word \<Rightarrow> real" where
  "SVGLoader_resolution samples = fl (1 / real (unat (max 1 samples)))"

text \<open>
  \<^verbatim>\<open>Sqr\<close> and \<^verbatim>\<open>VecAng\<close> pass their values through \<^verbatim>\<open>float\<close>; the model keeps them
  real.
\<close>

definition Sqr :: "real \<Rightarrow> real" where
  "Sqr x = x * x"

definition VecAng :: "real \<Rightarrow> real \<Rightarrow> real \<Rightarrow> real \<Rightarrow> real" where
  "VecAng ux uy vx vy =
     (let uMag = sqrt (ux * ux + uy * uy);
          vMag = sqrt (vx * vx + vy * vy);
          r0 = (ux * vx + uy * vy) / (uMag * vMag);
          r = (if r0 < - 1 then - 1 else if r0 > 1 then 1 else r0);
          a = arccos r
      in if ux * vy < uy * vx then - a else a)"

text \<open>
  The loop \<^verbatim>\<open>for (i = 0; i <= ndivs; ++i)\<close> of \<^verbatim>\<open>arcPath\<close>; \<open>t\<close> is the array
  \<^verbatim>\<open>t[6]\<close>.
\<close>

function arcPath_for ::
  "real \<Rightarrow> real \<Rightarrow> nat \<Rightarrow> real \<Rightarrow> real \<Rightarrow> real list \<Rightarrow> real \<Rightarrow> real
     \<Rightarrow> nat \<Rightarrow> real \<Rightarrow> real \<Rightarrow> real \<Rightarrow> real \<Rightarrow> Vector2d list \<Rightarrow> Vector2d list option" where
  "arcPath_for a1 da ndivs rx ry t kappa step i px py ptanx ptany points =
     (if i \<le> ndivs
      then (let a = a1 + da * (real i / real ndivs);
                dx = cos a;
                dy = sin a;
                pox = dx * rx;
                poy = dy * ry;
                x = pox * t ! 0 + poy * t ! 2 + t ! 4;
                y = pox * t ! 1 + poy * t ! 3 + t ! 5;
                tx = - dy * rx * kappa;
                ty = dx * ry * kappa;
                tanx = tx * t ! 0 + ty * t ! 2;
                tany = tx * t ! 1 + ty * t ! 3
            in case (if i > 0
                     then cubicBezier (px, py) (px + ptanx, py + ptany) (x - tanx, y - tany)
                            (x, y) step points
                     else Some points) of
                 None \<Rightarrow> None
               | Some points' \<Rightarrow>
                   arcPath_for a1 da ndivs rx ry t kappa step (Suc i) x y tanx tany points')
      else Some points)"
  by pat_completeness auto
termination
  by (relation "measure (\<lambda>(a1, da, ndivs, rx, ry, t, kappa, step, i, r). Suc ndivs - i)") auto

declare arcPath_for.simps [simp del]

definition arcPath ::
  "Vector2d \<Rightarrow> real \<Rightarrow> real \<Rightarrow> real \<Rightarrow> nat \<Rightarrow> nat \<Rightarrow> Vector2d \<Rightarrow> real \<Rightarrow> Vector2d list
     \<Rightarrow> Vector2d list option" where
  "arcPath p0 rx0 ry0 rotxDeg largeArc sweepDirection pEnd step points =
     (let rotx = rotxDeg / 180 * pi;
          x1 = X p0; y1 = Y p0; x2 = X pEnd; y2 = Y pEnd;
          dx = x1 - x2;
          dy = y1 - y2;
          d = sqrt (dx * dx + dy * dy)
      in if d < 1 / 1000000 \<or> rx0 < 1 / 1000000 \<or> ry0 < 1 / 1000000
         then Some (points @ [pEnd])
         else
          (let sinrx = sin rotx;
               cosrx = cos rotx;
               x1p = cosrx * dx / 2 + sinrx * dy / 2;
               y1p = - sinrx * dx / 2 + cosrx * dy / 2;
               d1 = Sqr x1p / Sqr rx0 + Sqr y1p / Sqr ry0;
               rx = (if d1 > 1 then rx0 * sqrt d1 else rx0);
               ry = (if d1 > 1 then ry0 * sqrt d1 else ry0);
               sa0 = Sqr rx * Sqr ry - Sqr rx * Sqr y1p - Sqr ry * Sqr x1p;
               sb = Sqr rx * Sqr y1p + Sqr ry * Sqr x1p;
               sa = (if sa0 < 0 then 0 else sa0);
               s0 = (if sb > 0 then sqrt (sa / sb) else 0);
               s = (if largeArc = sweepDirection then - s0 else s0);
               cxp = s * rx * y1p / ry;
               cyp = s * - ry * x1p / rx;
               cx = (x1 + x2) / 2 + cosrx * cxp - sinrx * cyp;
               cy = (y1 + y2) / 2 + sinrx * cxp + cosrx * cyp;
               ux = (x1p - cxp) / rx;
               uy = (y1p - cyp) / ry;
               vx = (- x1p - cxp) / rx;
               vy = (- y1p - cyp) / ry;
               a1 = VecAng 1 0 ux uy;
               da0 = VecAng ux uy vx vy;
               da1 = (if largeArc \<noteq> 0
                      then (if da0 > 0 then da0 - 2 * pi else 2 * pi + da0)
                      else da0);
               da = (if pi - \<bar>da1\<bar> < 1 / 1000
                     then (if sweepDirection \<noteq> 0 then pi else - pi)
                     else da1);
               t = [cosrx, sinrx, - sinrx, cosrx, cx, cy];
               ndivs = nat \<lfloor>\<bar>da\<bar> / (pi * (1 / 2)) + 1\<rfloor>;
               hda = (da / real ndivs) / 2;
               kappa0 = \<bar>4 / 3 * (1 - cos hda) / sin hda\<bar>;
               kappa = (if da < 0 then - kappa0 else kappa0)
           in arcPath_for a1 da ndivs rx ry t kappa step 0 0 0 0 0 points))"

section \<open>From a subpath to a polyline\<close>

text \<open>
  The \<^verbatim>\<open>while (i < count)\<close> loops of \<^verbatim>\<open>SubpathToPolyline\<close> read the numbers of a
  command in groups of 2, 6 or 7 without comparing the group with \<^verbatim>\<open>count\<close>: a last
  group that is too short is an out-of-bounds read. The current point \<^verbatim>\<open>_last\<close> is
  \<open>lastp\<close>.
\<close>

fun line_rel ::
  "real list \<Rightarrow> Vector2d \<Rightarrow> Vector2d list \<Rightarrow> error + (Vector2d \<times> Vector2d list)" where
  "line_rel [] lastp polyline = Inr (lastp, polyline)"
| "line_rel [x] lastp polyline = Inl OutOfBounds"
| "line_rel (x # y # rest) lastp polyline =
     (let p = (x + X lastp, y + Y lastp) in line_rel rest p (polyline @ [p]))"

fun line_abs ::
  "real list \<Rightarrow> Vector2d \<Rightarrow> Vector2d list \<Rightarrow> error + (Vector2d \<times> Vector2d list)" where
  "line_abs [] lastp polyline = Inr (lastp, polyline)"
| "line_abs [x] lastp polyline = Inl OutOfBounds"
| "line_abs (x # y # rest) lastp polyline =
     (let p = (x, y) in line_abs rest p (polyline @ [p]))"

fun curve_abs ::
  "real \<Rightarrow> real list \<Rightarrow> Vector2d \<Rightarrow> Vector2d list
     \<Rightarrow> (error + (Vector2d \<times> Vector2d list)) option" where
  "curve_abs resolution [] lastp polyline = Some (Inr (lastp, polyline))"
| "curve_abs resolution (x1 # y1 # x2 # y2 # x3 # y3 # rest) lastp polyline =
     (case cubicBezier lastp (x1, y1) (x2, y2) (x3, y3) resolution polyline of
        None \<Rightarrow> None
      | Some polyline' \<Rightarrow> curve_abs resolution rest (x3, y3) polyline')"
| "curve_abs resolution _ lastp polyline = Some (Inl OutOfBounds)"

fun curve_rel ::
  "real \<Rightarrow> real list \<Rightarrow> Vector2d \<Rightarrow> Vector2d list
     \<Rightarrow> (error + (Vector2d \<times> Vector2d list)) option" where
  "curve_rel resolution [] lastp polyline = Some (Inr (lastp, polyline))"
| "curve_rel resolution (x1 # y1 # x2 # y2 # x3 # y3 # rest) lastp polyline =
     (let p1 = (x1 + X lastp, y1 + Y lastp);
          p2 = (x2 + X lastp, y2 + Y lastp);
          p3 = (x3 + X lastp, y3 + Y lastp)
      in case cubicBezier lastp p1 p2 p3 resolution polyline of
           None \<Rightarrow> None
         | Some polyline' \<Rightarrow> curve_rel resolution rest p3 polyline')"
| "curve_rel resolution _ lastp polyline = Some (Inl OutOfBounds)"

text \<open>
  \<^verbatim>\<open>static_cast<unsigned int>\<close> of a \<^verbatim>\<open>double\<close> truncates towards zero and is
  undefined when the truncated value is no \<^verbatim>\<open>unsigned int\<close>. A last group of an arc
  command with fewer than seven numbers is undefined behaviour in any case; the model
  gives it as \<open>OutOfBounds\<close> without looking at the casts of the numbers it has.
\<close>

definition to_uint :: "real \<Rightarrow> error + nat" where
  "to_uint x = (if - 1 < x \<and> x < 2 ^ 32 then Inr (nat \<lfloor>x\<rfloor>) else Inl BadCast)"

fun arc_abs ::
  "real \<Rightarrow> real list \<Rightarrow> Vector2d \<Rightarrow> Vector2d list
     \<Rightarrow> (error + (Vector2d \<times> Vector2d list)) option" where
  "arc_abs resolution [] lastp polyline = Some (Inr (lastp, polyline))"
| "arc_abs resolution (rx # ry # xRot # fa # fs # x # y # rest) lastp polyline =
     (case to_uint fa of
        Inl e \<Rightarrow> Some (Inl e)
      | Inr arc \<Rightarrow>
         (case to_uint fs of
            Inl e \<Rightarrow> Some (Inl e)
          | Inr sweep \<Rightarrow>
             (let pEnd = (x, y)
              in case arcPath lastp rx ry xRot arc sweep pEnd resolution polyline of
                   None \<Rightarrow> None
                 | Some polyline' \<Rightarrow> arc_abs resolution rest pEnd polyline')))"
| "arc_abs resolution _ lastp polyline = Some (Inl OutOfBounds)"

fun arc_rel ::
  "real \<Rightarrow> real list \<Rightarrow> Vector2d \<Rightarrow> Vector2d list
     \<Rightarrow> (error + (Vector2d \<times> Vector2d list)) option" where
  "arc_rel resolution [] lastp polyline = Some (Inr (lastp, polyline))"
| "arc_rel resolution (rx # ry # xRot # fa # fs # x # y # rest) lastp polyline =
     (case to_uint fa of
        Inl e \<Rightarrow> Some (Inl e)
      | Inr arc \<Rightarrow>
         (case to_uint fs of
            Inl e \<Rightarrow> Some (Inl e)
          | Inr sweep \<Rightarrow>
             (let pEnd = (x + X lastp, y + Y lastp)
              in case arcPath lastp rx ry xRot arc sweep pEnd resolution polyline of
                   None \<Rightarrow> None
                 | Some polyline' \<Rightarrow> arc_rel resolution rest pEnd polyline')))"
| "arc_rel resolution _ lastp polyline = Some (Inl OutOfBounds)"

text \<open>One round of the loop over the commands: the \<^verbatim>\<open>switch (cmd.cmd)\<close>.\<close>

definition with_log ::
  "diag list \<Rightarrow> (error + (Vector2d \<times> Vector2d list)) option
     \<Rightarrow> (error + (Vector2d \<times> Vector2d list \<times> diag list)) option" where
  "with_log diags r =
     (case r of
        None \<Rightarrow> None
      | Some (Inl e) \<Rightarrow> Some (Inl e)
      | Some (Inr (lastp, polyline)) \<Rightarrow> Some (Inr (lastp, polyline, diags)))"

definition SubpathToPolyline_switch ::
  "real \<Rightarrow> SVGCommand \<Rightarrow> Vector2d \<Rightarrow> Vector2d list \<Rightarrow> diag list
     \<Rightarrow> (error + (Vector2d \<times> Vector2d list \<times> diag list)) option" where
  "SubpathToPolyline_switch resolution c lastp polyline diags =
     (if cmd c = CHR ''m'' \<or> cmd c = CHR ''l''
        then with_log diags (Some (line_rel (numbers c) lastp polyline))
      else if cmd c = CHR ''M'' \<or> cmd c = CHR ''L''
        then with_log diags (Some (line_abs (numbers c) lastp polyline))
      else if cmd c = CHR ''C''
        then with_log diags (curve_abs resolution (numbers c) lastp polyline)
      else if cmd c = CHR ''c''
        then with_log diags (curve_rel resolution (numbers c) lastp polyline)
      else if cmd c = CHR ''A''
        then with_log diags (arc_abs resolution (numbers c) lastp polyline)
      else if cmd c = CHR ''a''
        then with_log diags (arc_rel resolution (numbers c) lastp polyline)
      else if cmd c = CHR ''Z'' \<or> cmd c = CHR ''z''
        then (case polyline of
                [] \<Rightarrow> Some (Inl OutOfBounds)
              | p # _ \<Rightarrow>
                  if Distance (last polyline) p > 1 / 100000
                  then Some (Inr (lastp, polyline @ [p], diags @ [Err ''Zz'']))
                  else Some (Inr (lastp, polyline, diags)))
      else Some (Inr (lastp, polyline, diags @ [Err ''Unexpected SVGCommand value''])))"

fun SubpathToPolyline_for ::
  "real \<Rightarrow> SVGCommand list \<Rightarrow> Vector2d \<Rightarrow> Vector2d list \<Rightarrow> diag list
     \<Rightarrow> (error + (Vector2d \<times> Vector2d list \<times> diag list)) option" where
  "SubpathToPolyline_for resolution [] lastp polyline diags = Some (Inr (lastp, polyline, diags))"
| "SubpathToPolyline_for resolution (c # rest) lastp polyline diags =
     (case SubpathToPolyline_switch resolution c lastp polyline diags of
        None \<Rightarrow> None
      | Some (Inl e) \<Rightarrow> Some (Inl e)
      | Some (Inr (lastp', polyline', diags')) \<Rightarrow>
          SubpathToPolyline_for resolution rest lastp' polyline' diags')"

text \<open>
  \<^verbatim>\<open>SubpathToPolyline\<close> returns the last point; the model returns with it the polyline
  on exit and the diagnostics, appended to those of the caller.
\<close>

definition SubpathToPolyline ::
  "real \<Rightarrow> SVGCommand list \<Rightarrow> Vector2d \<Rightarrow> Vector2d list \<Rightarrow> diag list
     \<Rightarrow> (error + (Vector2d \<times> Vector2d list \<times> diag list)) option" where
  "SubpathToPolyline resolution subpath lastp polyline diags =
     (if polyline \<noteq> [] then Some (Inr ((0, 0), polyline, diags @ [Err ''polyline not empty'']))
      else SubpathToPolyline_for resolution subpath lastp polyline diags)"

section \<open>Processing the commands of one path\<close>

text \<open>
  The loop of \<^verbatim>\<open>PathCommands\<close> over \<^verbatim>\<open>subpaths\<close>, the subpaths as split (not the
  expanded ones of \<^verbatim>\<open>_path.subpaths\<close>): each gets a new polyline, and the last point
  is handed on.
\<close>

fun PathCommands_polylines ::
  "real \<Rightarrow> SVGCommand list list \<Rightarrow> Vector2d \<Rightarrow> Vector2d list list \<Rightarrow> diag list
     \<Rightarrow> (error + (Vector2d list list \<times> diag list)) option" where
  "PathCommands_polylines resolution [] p polys diags = Some (Inr (polys, diags))"
| "PathCommands_polylines resolution (subpath # rest) p polys diags =
     (case SubpathToPolyline resolution subpath p [] diags of
        None \<Rightarrow> None
      | Some (Inl e) \<Rightarrow> Some (Inl e)
      | Some (Inr (p', polyline, diags')) \<Rightarrow>
          PathCommands_polylines resolution rest p' (polys @ [polyline]) diags')"

text \<open>\<^verbatim>\<open>_path.transform * Vector3d(x, y, 1)\<close>, of which the first two coordinates are kept.\<close>

fun transform_point :: "Matrix3d \<Rightarrow> Vector2d \<Rightarrow> Vector2d" where
  "transform_point (Matrix3d m00 m01 m02 m10 m11 m12 m20 m21 m22) p =
     (m00 * X p + m01 * Y p + m02 * 1, m10 * X p + m11 * Y p + m12 * 1)"

text \<open>
  \<^verbatim>\<open>PathCommands\<close>: the result of \<^verbatim>\<open>SplitSubpaths\<close> is not looked at, and the
  function ends with \<^verbatim>\<open>return true\<close>. The test \<^verbatim>\<open>_path.transform != Identity\<close> is
  taken as inequality of the entries.
\<close>

definition PathCommands ::
  "(string \<Rightarrow> string \<Rightarrow> string list) \<Rightarrow> (string \<Rightarrow> real) \<Rightarrow> real \<Rightarrow> string list \<Rightarrow> SVGPath
     \<Rightarrow> (error + (bool \<times> SVGPath \<times> diag list)) option" where
  "PathCommands split atof resolution tokens path =
     (case SplitSubpaths (PathCommands_cmds split atof tokens) [] of
        Inl e \<Rightarrow> Some (Inl e)
      | Inr (splitOk, sps, diags) \<Rightarrow>
         (case ExpandCommands sps path of
            None \<Rightarrow> None
          | Some (Inl e) \<Rightarrow> Some (Inl e)
          | Some (Inr path1) \<Rightarrow>
             (case PathCommands_polylines resolution sps (0, 0) (polylines path1) diags of
                None \<Rightarrow> None
              | Some (Inl e) \<Rightarrow> Some (Inl e)
              | Some (Inr (polys, diags')) \<Rightarrow>
                  Some (Inr (True,
                    path1\<lparr>polylines :=
                      (if transform path1 \<noteq> Identity
                       then map (map (transform_point (transform path1))) polys
                       else polys)\<rparr>,
                    diags')))))"

section \<open>Parsing a transform attribute\<close>

text \<open>\<^verbatim>\<open>s.find(sub) != std::string::npos\<close>: \<open>sub\<close> occurs in \<open>s\<close>.\<close>

fun contains :: "string \<Rightarrow> string \<Rightarrow> bool" where
  "contains [] sub = (sub = [])"
| "contains (c # cs) sub = (prefix sub (c # cs) \<or> contains cs sub)"

fun mat_mult :: "Matrix3d \<Rightarrow> Matrix3d \<Rightarrow> Matrix3d" where
  "mat_mult (Matrix3d a00 a01 a02 a10 a11 a12 a20 a21 a22)
            (Matrix3d b00 b01 b02 b10 b11 b12 b20 b21 b22) =
     Matrix3d (a00 * b00 + a01 * b10 + a02 * b20) (a00 * b01 + a01 * b11 + a02 * b21)
              (a00 * b02 + a01 * b12 + a02 * b22)
              (a10 * b00 + a11 * b10 + a12 * b20) (a10 * b01 + a11 * b11 + a12 * b21)
              (a10 * b02 + a11 * b12 + a12 * b22)
              (a20 * b00 + a21 * b10 + a22 * b20) (a20 * b01 + a21 * b11 + a22 * b21)
              (a20 * b02 + a21 * b12 + a22 * b22)"

text \<open>
  \<^verbatim>\<open>stod\<close> is the parameter \<open>stod\<close>; \<open>None\<close> stands for the exception it throws. Every
  branch that passes its test of the parameter count converts all the numbers it was
  given.
\<close>

fun stod_all :: "(string \<Rightarrow> real option) \<Rightarrow> string list \<Rightarrow> error + real list" where
  "stod_all stod [] = Inr []"
| "stod_all stod (n # ns) =
     (case stod n of
        None \<Rightarrow> Inl InvalidArgument
      | Some v \<Rightarrow> (case stod_all stod ns of Inl e \<Rightarrow> Inl e | Inr vs \<Rightarrow> Inr (v # vs)))"

definition SetDegree :: "real \<Rightarrow> real" where
  "SetDegree deg = deg * pi / 180"

definition ParseTransformMatrixStr ::
  "(string \<Rightarrow> string \<Rightarrow> string list) \<Rightarrow> (string \<Rightarrow> real option) \<Rightarrow> string
     \<Rightarrow> error + (Matrix3d \<times> diag list)" where
  "ParseTransformMatrixStr split stod transformStr =
     (if transformStr = []
      then Inr (Identity, [Err ''no data for ParseTransformMatrixStr''])
      else
       (let tx = split transformStr ''(''
        in if length tx < 2
           then Inr (Identity, [Err ''Invalid path transform''])
           else
            (let transform = tx ! 0;
                 nums = split (tx ! 1) '',''
             in if contains transform ''matrix''
                then (if length nums \<noteq> 6
                      then Inr (Identity, [Err ''Unsupported matrix transform. Should be 6.''])
                      else case stod_all stod nums of
                             Inl e \<Rightarrow> Inl e
                           | Inr v \<Rightarrow>
                               Inr (Matrix3d (v ! 0) (v ! 2) (v ! 4) (v ! 1) (v ! 3) (v ! 5)
                                      0 0 1, []))
                else if contains transform ''skewX''
                then (if length nums \<noteq> 1
                      then Inr (Identity,
                             [Err ''Unsupported skewX transform. Needs 1 parameter only''])
                      else case stod_all stod nums of
                             Inl e \<Rightarrow> Inl e
                           | Inr v \<Rightarrow>
                               (let t = tan (SetDegree (v ! 0))
                                in Inr (Matrix3d 1 t 0 0 1 0 0 0 1, [])))
                else if contains transform ''skewY''
                then (if length nums \<noteq> 1
                      then Inr (Identity,
                             [Err ''Unsupported skewY transform. Needs 1 parameter only''])
                      else case stod_all stod nums of
                             Inl e \<Rightarrow> Inl e
                           | Inr v \<Rightarrow>
                               (let t = tan (SetDegree (v ! 0))
                                in Inr (Matrix3d 1 0 0 t 1 0 0 0 1, [])))
                else if contains transform ''scale''
                then (if length nums = 0 \<or> length nums > 2
                      then Inr (Identity,
                             [Err ''Unsupported scale transform with more than 2 parameters''])
                      else case stod_all stod nums of
                             Inl e \<Rightarrow> Inl e
                           | Inr v \<Rightarrow>
                               (let x = v ! 0;
                                    y = (if length nums = 2 then v ! 1 else x)
                                in Inr (Matrix3d x 0 0 0 y 0 0 0 1, [])))
                else if contains transform ''translate''
                then (if length nums = 0 \<or> length nums > 2
                      then Inr (Identity,
                             [Err ''Unsupported translate transform with more than 2 parameters''])
                      else case stod_all stod nums of
                             Inl e \<Rightarrow> Inl e
                           | Inr v \<Rightarrow>
                               (let x = v ! 0;
                                    y = (if length nums = 2 then v ! 1 else 0)
                                in Inr (Matrix3d 1 0 x 0 1 y 0 0 1, [])))
                else if contains transform ''rotate''
                then (if length nums = 0 \<or> length nums = 2 \<or> length nums > 3
                      then Inr (Identity,
                             [Err ''Unsupported rotate transform. Only angle and optional x y are supported''])
                      else case stod_all stod nums of
                             Inl e \<Rightarrow> Inl e
                           | Inr v \<Rightarrow>
                               (let a = SetDegree (v ! 0);
                                    sina = sin a;
                                    cosa = cos a;
                                    x = (if length nums = 3 then v ! 1 else 0);
                                    y = (if length nums = 3 then v ! 2 else 0);
                                    transToXy = Matrix3d 1 0 x 0 1 y 0 0 1;
                                    transFromXy = Matrix3d 1 0 (- x) 0 1 (- y) 0 0 1;
                                    rotate = Matrix3d cosa (- sina) 0 sina cosa 0 0 0 1
                                in Inr (mat_mult (mat_mult transToXy rotate) transFromXy, [])))
                else Inr (Identity, [Err ''Unknown transformation'']))))"

section \<open>Reconstructing closed polylines\<close>

definition Vector2dCompare :: "Vector2d \<Rightarrow> Vector2d \<Rightarrow> real \<Rightarrow> bool" where
  "Vector2dCompare a b tol =
     (let x = X a - X b; y = Y a - Y b in x * x + y * y < tol * tol)"

type_synonym segment = "Vector2d \<times> Vector2d"

text \<open>
  The loop \<^verbatim>\<open>for (i = 1; i < poly.size(); ++i)\<close> that cuts one polyline into
  segments: \<^verbatim>\<open>startPoint\<close> moves on only when a segment is kept.
\<close>

fun poly_segments ::
  "real \<Rightarrow> Vector2d \<Rightarrow> Vector2d list \<Rightarrow> segment list \<Rightarrow> diag list \<Rightarrow> segment list \<times> diag list" where
  "poly_segments tol startPoint [] segments diags = (segments, diags)"
| "poly_segments tol startPoint (endPoint # rest) segments diags =
     (if Distance endPoint startPoint < tol
      then poly_segments tol startPoint rest segments (diags @ [Msg ''Ignoring short segment''])
      else poly_segments tol endPoint rest (segments @ [(startPoint, endPoint)]) diags)"

text \<open>\<^verbatim>\<open>startPoint = poly[0]\<close> reads outside an empty polyline.\<close>

fun polys_segments ::
  "real \<Rightarrow> Vector2d list list \<Rightarrow> segment list \<Rightarrow> diag list \<Rightarrow> error + (segment list \<times> diag list)" where
  "polys_segments tol [] segments diags = Inr (segments, diags)"
| "polys_segments tol (poly # rest) segments diags =
     (case poly of
        [] \<Rightarrow> Inl OutOfBounds
      | startPoint # points \<Rightarrow>
         (case poly_segments tol startPoint points segments diags of
            (segments', diags') \<Rightarrow> polys_segments tol rest segments' diags'))"

fun paths_segments ::
  "real \<Rightarrow> SVGPath list \<Rightarrow> segment list \<Rightarrow> diag list \<Rightarrow> error + (segment list \<times> diag list)" where
  "paths_segments tol [] segments diags = Inr (segments, diags)"
| "paths_segments tol (path # rest) segments diags =
     (case polys_segments tol (polylines path) segments diags of
        Inl e \<Rightarrow> Inl e
      | Inr (segments', diags') \<Rightarrow> paths_segments tol rest segments' diags')"

text \<open>
  The \<^verbatim>\<open>for\<close> loop over the remaining segments: the first segment with an end within
  the tolerance of \<^verbatim>\<open>polyline.back()\<close> is erased and its other end is the next point
  (the test of \<^verbatim>\<open>seg.second\<close> comes last and wins when both ends match).
\<close>

fun find_segment :: "Vector2d \<Rightarrow> real \<Rightarrow> segment list \<Rightarrow> (Vector2d \<times> segment list) option" where
  "find_segment back tol [] = None"
| "find_segment back tol (seg # rest) =
     (if Vector2dCompare back (snd seg) tol then Some (fst seg, rest)
      else if Vector2dCompare back (fst seg) tol then Some (snd seg, rest)
      else case find_segment back tol rest of
             None \<Rightarrow> None
           | Some (nextPoint, rest') \<Rightarrow> Some (nextPoint, seg # rest'))"

lemma find_segment_length:
  "find_segment back tol segments = Some (nextPoint, segments')
     \<Longrightarrow> Suc (length segments') = length segments"
  by (induction segments arbitrary: segments') (auto split: if_splits option.splits)

text \<open>The loop \<^verbatim>\<open>while (segmentFound && !loopClosed)\<close>.\<close>

function grow_polyline ::
  "real \<Rightarrow> Vector2d list \<Rightarrow> segment list \<Rightarrow> Vector2d list \<times> segment list \<times> bool" where
  "grow_polyline tol polyline segments =
     (case find_segment (last polyline) tol segments of
        None \<Rightarrow> (polyline, segments, False)
      | Some (nextPoint, segments') \<Rightarrow>
          if Vector2dCompare nextPoint (polyline ! 0) tol
          then (polyline @ [nextPoint], segments', True)
          else grow_polyline tol (polyline @ [nextPoint]) segments')"
  by pat_completeness auto
termination
  by (relation "measure (\<lambda>(tol, polyline, segments). length segments)")
     (auto dest: find_segment_length)

declare grow_polyline.simps [simp del]

lemma grow_polyline_length:
  "grow_polyline tol polyline segments = (polyline', segments', c)
     \<Longrightarrow> length segments' \<le> length segments"
proof (induction tol polyline segments rule: grow_polyline.induct)
  case (1 tol polyline segments)
  show ?case
  proof (cases "find_segment (last polyline) tol segments")
    case None
    with "1.prems" show ?thesis by (simp add: grow_polyline.simps)
  next
    case (Some r)
    obtain nextPoint segs1 where r: "r = (nextPoint, segs1)" by (cases r)
    have len: "Suc (length segs1) = length segments"
      using Some r find_segment_length by blast
    show ?thesis
    proof (cases "Vector2dCompare nextPoint (polyline ! 0) tol")
      case True
      with "1.prems" Some r len show ?thesis
        by (simp add: grow_polyline.simps [of tol polyline segments])
    next
      case False
      with "1.prems" Some r
      have "grow_polyline tol (polyline @ [nextPoint]) segs1 = (polyline', segments', c)"
        by (simp add: grow_polyline.simps [of tol polyline segments])
      with "1.IH" [OF Some r [symmetric] False] len show ?thesis by simp
    qed
  qed
qed

text \<open>The loop \<^verbatim>\<open>while (!segments.empty())\<close>.\<close>

function stitch ::
  "real \<Rightarrow> segment list \<Rightarrow> Vector2d list list \<Rightarrow> Vector2d list list \<Rightarrow> diag list
     \<Rightarrow> Vector2d list list \<times> Vector2d list list \<times> diag list" where
  "stitch tol [] closedPolys openPolys diags = (closedPolys, openPolys, diags)"
| "stitch tol (s # segments) closedPolys openPolys diags =
     (case grow_polyline tol [fst s, snd s] segments of
        (polyline, segments', loopClosed) \<Rightarrow>
          if loopClosed
          then stitch tol segments' (closedPolys @ [polyline]) openPolys diags
          else stitch tol segments' closedPolys (openPolys @ [polyline])
                 (diags @ [Msg ''Line segments that are not part of a closed paths have been found'']))"
  by pat_completeness auto
termination
  by (relation "measure (\<lambda>(tol, segments, r). length segments)")
     (auto dest!: grow_polyline_length [OF sym])

definition PathsToClosedPolylines ::
  "SVGPath list \<Rightarrow> real \<Rightarrow> Vector2d list list \<Rightarrow> Vector2d list list
     \<Rightarrow> error + (Vector2d list list \<times> Vector2d list list \<times> diag list)" where
  "PathsToClosedPolylines paths tol closedPolys openPolys =
     (case paths_segments tol paths [] [] of
        Inl e \<Rightarrow> Inl e
      | Inr (segments, diags) \<Rightarrow> Inr (stitch tol segments closedPolys openPolys diags))"

section \<open>Reading the attributes of a path element\<close>

text \<open>
  \<^verbatim>\<open>PathAttribs\<close> walks the attributes of the XML element, here a list of pairs of name
  and value (\<open>None\<close> for a null element), and then hands the tokens of the last \<^verbatim>\<open>d\<close>
  attribute to \<^verbatim>\<open>PathCommands\<close>. The path data is cut by \<^verbatim>\<open>split(value, " ")\<close>. The
  helper \<^verbatim>\<open>lowercase\<close> (gz/common/Util.hh) is a parameter, like \<^verbatim>\<open>split\<close>.
\<close>

fun PathAttribs_while ::
  "(string \<Rightarrow> string \<Rightarrow> string list) \<Rightarrow> (string \<Rightarrow> real option) \<Rightarrow> (string \<Rightarrow> string)
     \<Rightarrow> (string \<times> string) list \<Rightarrow> SVGPath \<Rightarrow> string list \<Rightarrow> diag list
     \<Rightarrow> error + (SVGPath \<times> string list \<times> diag list)" where
  "PathAttribs_while split stod lowercase [] path tokens diags = Inr (path, tokens, diags)"
| "PathAttribs_while split stod lowercase (pAttrib # rest) path tokens diags =
     (let name = lowercase (fst pAttrib);
          val = snd pAttrib
      in if name = ''style''
           then PathAttribs_while split stod lowercase rest (path\<lparr>style := val\<rparr>) tokens diags
         else if name = ''id''
           then PathAttribs_while split stod lowercase rest (path\<lparr>id := val\<rparr>) tokens diags
         else if name = ''transform''
           then (case ParseTransformMatrixStr split stod val of
                   Inl e \<Rightarrow> Inl e
                 | Inr (m, diags') \<Rightarrow>
                     PathAttribs_while split stod lowercase rest (path\<lparr>transform := m\<rparr>) tokens
                       (diags @ diags'))
         else if name = ''d''
           then PathAttribs_while split stod lowercase rest path (split val '' '') diags
         else PathAttribs_while split stod lowercase rest path tokens
                (diags @ [Warn ''Ignoring attribute in path'']))"

definition PathAttribs ::
  "(string \<Rightarrow> string \<Rightarrow> string list) \<Rightarrow> (string \<Rightarrow> real) \<Rightarrow> (string \<Rightarrow> real option)
     \<Rightarrow> (string \<Rightarrow> string) \<Rightarrow> real \<Rightarrow> (string \<times> string) list option \<Rightarrow> SVGPath
     \<Rightarrow> (error + (bool \<times> SVGPath \<times> diag list)) option" where
  "PathAttribs split atof stod lowercase resolution pElement path =
     (case pElement of
        None \<Rightarrow> Some (Inr (False, path, [Err ''empty XML element where a path was expected.'']))
      | Some attribs \<Rightarrow>
         (case PathAttribs_while split stod lowercase attribs (path\<lparr>transform := Identity\<rparr>) [] [] of
            Inl e \<Rightarrow> Some (Inl e)
          | Inr (path', tokens, diags) \<Rightarrow>
             (case PathCommands split atof resolution tokens path' of
                None \<Rightarrow> None
              | Some (Inl e) \<Rightarrow> Some (Inl e)
              | Some (Inr (ok, path'', diags')) \<Rightarrow> Some (Inr (ok, path'', diags @ diags')))))"

section \<open>Specification-side definitions and sample inputs\<close>

subsection \<open>Command expansion\<close>

text \<open>
  What the specification asks of an expanded command: its numbers are exactly as many
  as the table says for its letter, or it is a close command without numbers.
\<close>

definition arity_ok :: "SVGCommand \<Rightarrow> bool" where
  "arity_ok c = ((0 < numberCount_of (cmd c) \<and> length (numbers c) = numberCount_of (cmd c))
                 \<or> (tolower (cmd c) = CHR ''z'' \<and> numbers c = []))"

text \<open>
  A raw command carries whole groups: no numbers at all, or a multiple of the (positive)
  count of its letter.
\<close>

definition whole_groups :: "SVGCommand \<Rightarrow> bool" where
  "whole_groups c = (numbers c = [] \<or>
      (0 < numberCount_of (cmd c) \<and> length (numbers c) mod numberCount_of (cmd c) = 0))"

text \<open>
  The expansion as the specification words it: a close command is emitted once,
  unchanged; any other command with \<open>k\<close> numbers gives \<open>k / arity\<close> commands of the same
  letter, each with the next slice of \<open>arity\<close> numbers.
\<close>

definition expand_spec :: "SVGCommand \<Rightarrow> SVGCommand list" where
  "expand_spec c =
     (if tolower (cmd c) = CHR ''z'' then [c]
      else map (\<lambda>j. \<lparr>cmd = cmd c,
                     numbers = take (numberCount_of (cmd c))
                                 (drop (j * numberCount_of (cmd c)) (numbers c))\<rparr>)
             [0..<length (numbers c) div numberCount_of (cmd c)])"

definition example_path :: SVGPath where
  "example_path = \<lparr>id = ''p'', style = [], transform = Identity, subpaths = [], polylines = []\<rparr>"

definition example_subpaths :: "SVGCommand list list" where
  "example_subpaths =
     [[\<lparr>cmd = CHR ''M'', numbers = [0, 0, 4, 0]\<rparr>, \<lparr>cmd = CHR ''l'', numbers = [0, 3]\<rparr>,
       \<lparr>cmd = CHR ''z'', numbers = []\<rparr>]]"

subsection \<open>Tokens and numbers\<close>

text \<open>
  Sample instances of the two helpers that are not among the source files, for running
  the model on concrete strings: \<open>strtok_split\<close> cuts a string at every character of
  the delimiter string and drops empty pieces; \<open>atof_digits\<close> reads the leading decimal
  digits of a string. The theorems below hold for every \<open>split\<close> and every \<open>atof\<close>.
\<close>

fun strtok_loop :: "string \<Rightarrow> string \<Rightarrow> string \<Rightarrow> string list" where
  "strtok_loop delim [] cur = (if cur = [] then [] else [cur])"
| "strtok_loop delim (c # cs) cur =
     (if c \<in> set delim
      then (if cur = [] then strtok_loop delim cs [] else cur # strtok_loop delim cs [])
      else strtok_loop delim cs (cur @ [c]))"

definition strtok_split :: "string \<Rightarrow> string \<Rightarrow> string list" where
  "strtok_split str delim = strtok_loop delim str []"

fun atof_loop :: "string \<Rightarrow> nat \<Rightarrow> nat" where
  "atof_loop [] acc = acc"
| "atof_loop (c # cs) acc =
     (let n = (of_char c :: nat) in
      if 48 \<le> n \<and> n \<le> 57 then atof_loop cs (10 * acc + (n - 48)) else acc)"

definition atof_digits :: "string \<Rightarrow> real" where
  "atof_digits s = real (atof_loop s 0)"




subsection \<open>Curves\<close>





subsection \<open>Transforms\<close>

text \<open>
  A sample instance of \<^verbatim>\<open>stod\<close> for plain decimal numbers: an optional sign, digits and
  an optional fraction are read from the front of the string and what follows is
  ignored; \<open>None\<close> (the exception) when no digit is found there.
\<close>

definition is_digit :: "char \<Rightarrow> bool" where
  "is_digit c = (48 \<le> (of_char c :: nat) \<and> (of_char c :: nat) \<le> 57)"

definition stod_decimal :: "string \<Rightarrow> real option" where
  "stod_decimal s =
     (let neg = (case s of [] \<Rightarrow> False | c # _ \<Rightarrow> c = CHR ''-'');
          r = (case s of [] \<Rightarrow> [] | c # cs \<Rightarrow> if c = CHR ''-'' \<or> c = CHR ''+'' then cs else s);
          ip = takeWhile is_digit r;
          fp = (case dropWhile is_digit r of
                  [] \<Rightarrow> []
                | c # cs \<Rightarrow> if c = CHR ''.'' then takeWhile is_digit cs else [])
      in if ip = [] \<and> fp = [] then None
         else Some ((if neg then - 1 else 1)
                    * (real (atof_loop ip 0) + real (atof_loop fp 0) / 10 ^ length fp)))"

subsection \<open>Segments and chains\<close>

definition consecutive_pairs :: "Vector2d list \<Rightarrow> segment list" where
  "consecutive_pairs poly = zip poly (tl poly)"

text \<open>
  The initial segments as claim C7 states them: the consecutive pairs, without those
  shorter than the tolerance.
\<close>

definition claimed_segments :: "real \<Rightarrow> Vector2d list \<Rightarrow> segment list" where
  "claimed_segments tol poly = filter (\<lambda>s. \<not> Distance (snd s) (fst s) < tol) (consecutive_pairs poly)"

text \<open>
  Thinning a polyline: after the first point, a point is kept when it is at least the
  tolerance away from the point kept last.
\<close>

fun kept_points :: "real \<Rightarrow> Vector2d \<Rightarrow> Vector2d list \<Rightarrow> Vector2d list" where
  "kept_points tol startPoint [] = []"
| "kept_points tol startPoint (p # ps) =
     (if Distance p startPoint < tol then kept_points tol startPoint ps
      else p # kept_points tol p ps)"

definition thinned :: "real \<Rightarrow> Vector2d list \<Rightarrow> Vector2d list" where
  "thinned tol poly = (case poly of [] \<Rightarrow> [] | p # ps \<Rightarrow> p # kept_points tol p ps)"

definition short_reports :: "real \<Rightarrow> Vector2d list \<Rightarrow> diag list" where
  "short_reports tol poly =
     replicate (length poly - length (thinned tol poly)) (Msg ''Ignoring short segment'')"

definition unit_square_edges :: "segment list" where
  "unit_square_edges = [((0, 0), (1, 0)), ((1, 0), (1, 1)), ((1, 1), (0, 1)), ((0, 1), (0, 0))]"

text \<open>An edge given as a polyline of two points, in one of its two orientations.\<close>

definition orient :: "segment \<Rightarrow> bool \<Rightarrow> Vector2d list" where
  "orient s flipped = (if flipped then [snd s, fst s] else [fst s, snd s])"

text \<open>
  All the ways to supply \<open>k\<close> different edges of the unit square: every order, every
  orientation.
\<close>

definition arrangements :: "nat \<Rightarrow> Vector2d list list list" where
  "arrangements k =
     concat (map (\<lambda>es. map (\<lambda>fs. map2 orient es fs) (List.n_lists k [False, True]))
               (filter distinct (List.n_lists k unit_square_edges)))"

text \<open>The reconstructor on one path with the given polylines, at tolerance \<open>1e-5\<close>.\<close>

definition reconstruct :: "Vector2d list list \<Rightarrow> error + (Vector2d list list \<times> Vector2d list list \<times> diag list)" where
  "reconstruct polys = PathsToClosedPolylines [example_path\<lparr>polylines := polys\<rparr>] (1 / 100000) [] []"

definition one_closed_square :: "Vector2d list list \<Rightarrow> bool" where
  "one_closed_square polys =
     (case reconstruct polys of
        Inl e \<Rightarrow> False
      | Inr (closedPolys, openPolys, diags) \<Rightarrow>
          length closedPolys = 1 \<and> openPolys = [] \<and> diags = []
          \<and> length (hd closedPolys) = 5 \<and> hd (hd closedPolys) = last (hd closedPolys))"


text \<open>
  The first point of the first polyline is a free end: it lies on no other polyline.
\<close>

definition starts_at_free_end :: "Vector2d list list \<Rightarrow> bool" where
  "starts_at_free_end polys = (length (filter (\<lambda>poly. hd (hd polys) \<in> set poly) polys) = 1)"

definition open_chains_of_three :: "Vector2d list list \<Rightarrow> bool" where
  "open_chains_of_three polys =
     (case reconstruct polys of
        Inl e \<Rightarrow> False
      | Inr (closedPolys, openPolys, diags) \<Rightarrow>
          closedPolys = [] \<and>
          (if starts_at_free_end polys
           then length openPolys = 1 \<and> length (hd openPolys) = 4
           else (length openPolys = 2 \<or> length openPolys = 3) \<and> list_all (\<lambda>c. length c < 4) openPolys))"

section \<open>Properties of subpath splitting\<close>

lemma tolower_simps [simp]:
  "tolower (CHR ''M'') = CHR ''m''" "tolower (CHR ''m'') = CHR ''m''"
  "tolower (CHR ''L'') = CHR ''l''" "tolower (CHR ''l'') = CHR ''l''"
  "tolower (CHR ''C'') = CHR ''c''" "tolower (CHR ''c'') = CHR ''c''"
  "tolower (CHR ''A'') = CHR ''a''" "tolower (CHR ''a'') = CHR ''a''"
  "tolower (CHR ''Z'') = CHR ''z''" "tolower (CHR ''z'') = CHR ''z''"
  "tolower (CHR ''Q'') = CHR ''q''" "tolower (CHR ''q'') = CHR ''q''"
  "tolower (CHR ''V'') = CHR ''v''" "tolower (CHR ''v'') = CHR ''v''"
  "tolower (CHR ''H'') = CHR ''h''" "tolower (CHR ''h'') = CHR ''h''"
  by code_simp+

lemma SplitSubpaths_first_not_move:
  assumes "tolower (cmd c) \<noteq> CHR ''m''"
  shows "SplitSubpaths (c # cs) [] = Inl OutOfBounds"
  using assms by (simp add: SplitSubpaths_def)

text \<open>
  Claim C6. A non-empty command list whose first command is not a move command should
  give a reported structural error. On the list holding the single line command
  \<^verbatim>\<open>L 1 2\<close>, with no subpath open yet (as \<^verbatim>\<open>PathCommands\<close> calls it), the function reads
  \<^verbatim>\<open>back()\<close> of the empty vector of subpaths: no failure is returned and nothing is
  reported.
\<close>

theorem SplitSubpaths_line_first_undefined:
  "SplitSubpaths [\<lparr>cmd = CHR ''L'', numbers = [1, 2]\<rparr>] [] = Inl OutOfBounds"
  by (simp add: SplitSubpaths_def)

section \<open>Properties of command expansion\<close>

lemma copy_group_zero: "copy_group xs n 0 i acc = Inr acc"
  by (simp add: copy_group.simps)

lemma expand_while_stuck_aux:
  assumes e: "expand_while xCmd0 nc0 n0 sp0 = Some r0"
  shows "\<not> (nc0 = 0 \<and> n0 < length (numbers xCmd0))"
proof (rule expand_while.raw_induct
    [where P = "\<lambda>xCmd nc n sp r. \<not> (nc = 0 \<and> n < length (numbers xCmd))", OF _ e])
  fix f :: "SVGCommand \<Rightarrow> nat \<Rightarrow> nat \<Rightarrow> SVGCommand list \<Rightarrow> (error + SVGCommand list) option"
  fix xCmd nc n sp r
  assume IH: "\<And>xCmd nc n sp r. f xCmd nc n sp = Some r
                 \<Longrightarrow> \<not> (nc = 0 \<and> n < length (numbers xCmd))"
  assume step: "(if n < length (numbers xCmd)
      then (case copy_group (numbers xCmd) n nc 0 [] of
              Inl e \<Rightarrow> Some (Inl e)
            | Inr ns \<Rightarrow> f xCmd nc (n + nc) (sp @ [\<lparr>cmd = cmd xCmd, numbers = ns\<rparr>]))
      else Some (Inr sp)) = Some r"
  show "\<not> (nc = 0 \<and> n < length (numbers xCmd))"
  proof
    assume a: "nc = 0 \<and> n < length (numbers xCmd)"
    with step have "f xCmd 0 n (sp @ [\<lparr>cmd = cmd xCmd, numbers = []\<rparr>]) = Some r"
      by (simp add: copy_group_zero)
    from IH [OF this] a show False by simp
  qed
qed

lemma expand_while_stuck:
  "n < length (numbers xCmd) \<Longrightarrow> expand_while xCmd 0 n subpath = None"
  using expand_while_stuck_aux [of xCmd 0 n subpath] by (cases "expand_while xCmd 0 n subpath") auto

lemma expand_while_done:
  "\<not> n < length (numbers xCmd) \<Longrightarrow> expand_while xCmd nc n subpath = Some (Inr subpath)"
  by (subst expand_while.simps) simp

lemma expand_while_step:
  "0 < nc \<Longrightarrow> n < length (numbers xCmd) \<Longrightarrow>
   expand_while xCmd nc n subpath =
     (case copy_group (numbers xCmd) n nc 0 [] of
        Inl e \<Rightarrow> Some (Inl e)
      | Inr ns \<Rightarrow> expand_while xCmd nc (n + nc) (subpath @ [\<lparr>cmd = cmd xCmd, numbers = ns\<rparr>]))"
  by (subst expand_while.simps) simp

lemma copy_group_exact:
  "n + numberCount \<le> length xs \<Longrightarrow> i \<le> numberCount \<Longrightarrow>
   copy_group xs n numberCount i acc = Inr (acc @ take (numberCount - i) (drop (n + i) xs))"
proof (induction xs n numberCount i acc rule: copy_group.induct)
  case (1 xs n numberCount i acc)
  show ?case
  proof (cases "i < numberCount")
    case True
    then have lt: "i + n < length xs" using "1.prems" by simp
    have "take (numberCount - i) (drop (n + i) xs)
            = xs ! (i + n) # take (numberCount - Suc i) (drop (n + Suc i) xs)"
      using True lt
      by (metis Cons_nth_drop_Suc Suc_diff_Suc add.commute add_Suc_right take_Suc_Cons)
    with True lt "1.IH" "1.prems" show ?thesis
      by (subst copy_group.simps) simp
  next
    case False
    then show ?thesis using "1.prems" by (subst copy_group.simps) simp
  qed
qed

lemma copy_group_short:
  "i < numberCount \<Longrightarrow> length xs < n + numberCount \<Longrightarrow> copy_group xs n numberCount i acc = Inl OutOfBounds"
proof (induction xs n numberCount i acc rule: copy_group.induct)
  case (1 xs n numberCount i acc)
  show ?case
  proof (cases "i + n < length xs")
    case True
    then have "Suc i < numberCount" using "1.prems" by simp
    with True "1.IH" "1.prems" show ?thesis
      by (subst copy_group.simps) simp
  next
    case False
    then show ?thesis using "1.prems" by (subst copy_group.simps) simp
  qed
qed

lemma copy_group_length:
  "copy_group xs n numberCount i acc = Inr ns \<Longrightarrow> i \<le> numberCount \<Longrightarrow>
   length ns = length acc + (numberCount - i)"
proof (induction xs n numberCount i acc rule: copy_group.induct)
  case (1 xs n numberCount i acc)
  show ?case
  proof (cases "i < numberCount")
    case True
    with "1.prems" have lt: "i + n < length xs"
      by (subst (asm) copy_group.simps) (auto split: if_splits)
    with True "1.prems"
    have "copy_group xs n numberCount (Suc i) (acc @ [xs ! (i + n)]) = Inr ns"
      by (subst (asm) copy_group.simps) simp
    from "1.IH" [OF True lt this] True show ?thesis by simp
  next
    case False
    with "1.prems" show ?thesis by (subst (asm) copy_group.simps) simp
  qed
qed

lemma expand_while_exact:
  "0 < nc \<Longrightarrow> length (numbers xCmd) = n + k * nc \<Longrightarrow>
   expand_while xCmd nc n sp =
     Some (Inr (sp @ map (\<lambda>j. \<lparr>cmd = cmd xCmd,
                               numbers = take nc (drop (n + j * nc) (numbers xCmd))\<rparr>) [0..<k]))"
proof (induction k arbitrary: n sp)
  case 0
  then show ?case by (simp add: expand_while_done)
next
  case (Suc k)
  have lt: "n < length (numbers xCmd)" using Suc.prems by simp
  have fit: "n + nc \<le> length (numbers xCmd)" using Suc.prems by simp
  have len: "length (numbers xCmd) = (n + nc) + k * nc" using Suc.prems by simp
  have shift: "map (\<lambda>j. \<lparr>cmd = cmd xCmd, numbers = take nc (drop (n + j * nc) (numbers xCmd))\<rparr>) [0..<Suc k]
      = \<lparr>cmd = cmd xCmd, numbers = take nc (drop n (numbers xCmd))\<rparr>
        # map (\<lambda>j. \<lparr>cmd = cmd xCmd, numbers = take nc (drop (n + nc + j * nc) (numbers xCmd))\<rparr>) [0..<k]"
    by (simp add: upt_conv_Cons map_Suc_upt [symmetric] add.assoc del: upt_Suc)
  show ?case
    using Suc.IH [OF Suc.prems(1) len] shift
    by (simp add: expand_while_step [OF Suc.prems(1) lt] copy_group_exact [OF fit] del: upt_Suc)
qed

lemma expand_while_post_aux:
  assumes e: "expand_while xCmd0 nc0 n0 sp0 = Some r0"
  shows "\<forall>sp'. r0 = Inr sp' \<longrightarrow>
           (\<exists>cs. sp' = sp0 @ cs \<and> (\<forall>c\<in>set cs. cmd c = cmd xCmd0 \<and> length (numbers c) = nc0))"
proof (rule expand_while.raw_induct
    [where P = "\<lambda>xCmd nc n sp r. \<forall>sp'. r = Inr sp' \<longrightarrow>
           (\<exists>cs. sp' = sp @ cs \<and> (\<forall>c\<in>set cs. cmd c = cmd xCmd \<and> length (numbers c) = nc))", OF _ e])
  fix f :: "SVGCommand \<Rightarrow> nat \<Rightarrow> nat \<Rightarrow> SVGCommand list \<Rightarrow> (error + SVGCommand list) option"
  fix xCmd nc n sp r
  assume IH: "\<And>xCmd nc n sp r. f xCmd nc n sp = Some r \<Longrightarrow> \<forall>sp'. r = Inr sp' \<longrightarrow>
           (\<exists>cs. sp' = sp @ cs \<and> (\<forall>c\<in>set cs. cmd c = cmd xCmd \<and> length (numbers c) = nc))"
  assume step: "(if n < length (numbers xCmd)
      then (case copy_group (numbers xCmd) n nc 0 [] of
              Inl e \<Rightarrow> Some (Inl e)
            | Inr ns \<Rightarrow> f xCmd nc (n + nc) (sp @ [\<lparr>cmd = cmd xCmd, numbers = ns\<rparr>]))
      else Some (Inr sp)) = Some r"
  show "\<forall>sp'. r = Inr sp' \<longrightarrow>
           (\<exists>cs. sp' = sp @ cs \<and> (\<forall>c\<in>set cs. cmd c = cmd xCmd \<and> length (numbers c) = nc))"
  proof (intro allI impI)
    fix sp' assume r: "r = Inr sp'"
    show "\<exists>cs. sp' = sp @ cs \<and> (\<forall>c\<in>set cs. cmd c = cmd xCmd \<and> length (numbers c) = nc)"
    proof (cases "n < length (numbers xCmd)")
      case False
      with step r show ?thesis by simp
    next
      case True
      with step r obtain ns where ns: "copy_group (numbers xCmd) n nc 0 [] = Inr ns"
        and f: "f xCmd nc (n + nc) (sp @ [\<lparr>cmd = cmd xCmd, numbers = ns\<rparr>]) = Some (Inr sp')"
        by (auto split: sum.splits)
      from IH [OF f] obtain cs where cs: "sp' = (sp @ [\<lparr>cmd = cmd xCmd, numbers = ns\<rparr>]) @ cs"
        "\<forall>c\<in>set cs. cmd c = cmd xCmd \<and> length (numbers c) = nc" by blast
      from copy_group_length [OF ns] have "length ns = nc" by simp
      with cs show ?thesis
        by (intro exI [of _ "\<lparr>cmd = cmd xCmd, numbers = ns\<rparr> # cs"]) simp
    qed
  qed
qed

lemma numberCount_of_z [simp]: "tolower c = CHR ''z'' \<Longrightarrow> numberCount_of c = 0"
  by (simp add: numberCount_of_def)

lemma expand_command_post:
  assumes e: "expand_command xCmd sp = Some (Inr sp')"
  shows "\<exists>cs. sp' = sp @ cs \<and> (\<forall>c\<in>set cs. arity_ok c)"
proof -
  let ?nc = "numberCount_of (cmd xCmd)"
  let ?sp0 = "if tolower (cmd xCmd) = CHR ''z'' then sp @ [xCmd] else sp"
  from e have w: "expand_while xCmd ?nc 0 ?sp0 = Some (Inr sp')"
    by (simp add: expand_command_def)
  from expand_while_post_aux [OF w] obtain cs where cs: "sp' = ?sp0 @ cs"
    "\<forall>c\<in>set cs. cmd c = cmd xCmd \<and> length (numbers c) = ?nc" by blast
  have ret: "numbers xCmd \<noteq> [] \<Longrightarrow> 0 < ?nc"
    using expand_while_stuck_aux [OF w] by auto
  have empty: "numbers xCmd = [] \<Longrightarrow> cs = []"
    using w cs(1) by (simp add: expand_while_done)
  have good: "\<forall>c\<in>set cs. arity_ok c"
  proof
    fix c assume c: "c \<in> set cs"
    then have "numbers xCmd \<noteq> []" using empty by auto
    with ret cs(2) c show "arity_ok c" by (auto simp: arity_ok_def)
  qed
  show ?thesis
  proof (cases "tolower (cmd xCmd) = CHR ''z''")
    case False
    with cs(1) good show ?thesis by auto
  next
    case True
    then have "?nc = 0" by simp
    with ret have "numbers xCmd = []" by auto
    then have "arity_ok xCmd" using True by (simp add: arity_ok_def)
    with True cs(1) good show ?thesis
      by (intro exI [of _ "xCmd # cs"]) simp
  qed
qed

lemma expand_subpath_post:
  "expand_subpath xs sp = Some (Inr sp') \<Longrightarrow> \<exists>cs. sp' = sp @ cs \<and> (\<forall>c\<in>set cs. arity_ok c)"
proof (induction xs arbitrary: sp)
  case Nil
  then show ?case by simp
next
  case (Cons x xs)
  from Cons.prems obtain sp1 where x: "expand_command x sp = Some (Inr sp1)"
    and xs: "expand_subpath xs sp1 = Some (Inr sp')"
    by (auto split: option.splits sum.splits)
  from expand_command_post [OF x] obtain cs1 where cs1: "sp1 = sp @ cs1" "\<forall>c\<in>set cs1. arity_ok c"
    by blast
  from Cons.IH [OF xs] obtain cs2 where cs2: "sp' = sp1 @ cs2" "\<forall>c\<in>set cs2. arity_ok c"
    by blast
  from cs1 cs2 show ?case by (intro exI [of _ "cs1 @ cs2"]) auto
qed

lemma ExpandCommands_post:
  "ExpandCommands sps path = Some (Inr path') \<Longrightarrow>
   \<exists>new. subpaths path' = subpaths path @ new \<and> length new = length sps
          \<and> (\<forall>sp\<in>set new. \<forall>c\<in>set sp. arity_ok c)"
proof (induction sps arbitrary: path)
  case Nil
  then show ?case by simp
next
  case (Cons x xs)
  from Cons.prems obtain sp where x: "expand_subpath x [] = Some (Inr sp)"
    and xs: "ExpandCommands xs (path\<lparr>subpaths := subpaths path @ [sp]\<rparr>) = Some (Inr path')"
    by (auto split: option.splits sum.splits)
  from expand_subpath_post [OF x] have sp: "\<forall>c\<in>set sp. arity_ok c" by auto
  from Cons.IH [OF xs] obtain new where new: "subpaths path' = (subpaths path @ [sp]) @ new"
    "length new = length xs" "\<forall>sp\<in>set new. \<forall>c\<in>set sp. arity_ok c" by auto
  from sp new show ?case by (intro exI [of _ "sp # new"]) auto
qed

lemma expand_command_whole:
  assumes "whole_groups c"
  shows "expand_command c sp = Some (Inr (sp @ expand_spec c))"
proof (cases "numbers c = []")
  case True
  then show ?thesis
    by (simp add: expand_command_def expand_while_done expand_spec_def)
next
  case False
  let ?nc = "numberCount_of (cmd c)"
  from False assms have pos: "0 < ?nc" and m: "length (numbers c) mod ?nc = 0"
    by (auto simp: whole_groups_def)
  then have notz: "tolower (cmd c) \<noteq> CHR ''z''" by auto
  from m have len: "length (numbers c) = 0 + (length (numbers c) div ?nc) * ?nc" by auto
  show ?thesis
    using expand_while_exact [OF pos len, of sp] notz
    by (simp add: expand_command_def expand_spec_def)
qed

lemma expand_subpath_whole:
  "\<forall>c\<in>set xs. whole_groups c \<Longrightarrow>
   expand_subpath xs sp = Some (Inr (sp @ concat (map expand_spec xs)))"
  by (induction xs arbitrary: sp) (simp_all add: expand_command_whole)

lemma ExpandCommands_whole:
  "\<forall>sp\<in>set sps. \<forall>c\<in>set sp. whole_groups c \<Longrightarrow>
   ExpandCommands sps path =
     Some (Inr (path\<lparr>subpaths := subpaths path @ map (\<lambda>sp. concat (map expand_spec sp)) sps\<rparr>))"
  by (induction sps arbitrary: path) (simp_all add: expand_subpath_whole)

lemma example_whole: "\<forall>sp\<in>set example_subpaths. \<forall>c\<in>set sp. whole_groups c"
  by (simp add: example_subpaths_def whole_groups_def numberCount_of_def)

lemma example_spec: "map (\<lambda>sp. concat (map expand_spec sp)) example_subpaths = 
   [[\<lparr>cmd = CHR ''M'', numbers = [0, 0]\<rparr>, \<lparr>cmd = CHR ''M'', numbers = [4, 0]\<rparr>,
     \<lparr>cmd = CHR ''l'', numbers = [0, 3]\<rparr>, \<lparr>cmd = CHR ''z'', numbers = []\<rparr>]]"
  by (simp add: example_subpaths_def expand_spec_def numberCount_of_def upt_conv_Cons)

text \<open>
  What \<^verbatim>\<open>ExpandCommands\<close> does where it returns: every command it has emitted carries
  exactly the count of numbers of its letter (m, l: 2; c: 6; a: 7; v, h: 1) or is a close
  command without numbers; and it does return, with the expansion the specification
  describes, when every raw command carries whole groups of numbers.
\<close>

lemma ExpandCommands_exact_arity:
  "(ExpandCommands sps path = Some (Inr path') \<longrightarrow>
      (\<exists>new. subpaths path' = subpaths path @ new \<and> length new = length sps
              \<and> (\<forall>sp\<in>set new. \<forall>c\<in>set sp. arity_ok c)))
   \<and> ((\<forall>sp\<in>set sps. \<forall>c\<in>set sp. whole_groups c) \<longrightarrow>
        ExpandCommands sps path =
          Some (Inr (path\<lparr>subpaths :=
                  subpaths path @ map (\<lambda>sp. concat (map expand_spec sp)) sps\<rparr>)))"
  using ExpandCommands_post [of sps path path'] ExpandCommands_whole [of sps path] by blast

text \<open>The same at a path with a repeated move, a line and a close command.\<close>

lemma ExpandCommands_exact_arity_example:
  "ExpandCommands example_subpaths example_path =
     Some (Inr (example_path\<lparr>subpaths :=
       [[\<lparr>cmd = CHR ''M'', numbers = [0, 0]\<rparr>, \<lparr>cmd = CHR ''M'', numbers = [4, 0]\<rparr>,
         \<lparr>cmd = CHR ''l'', numbers = [0, 3]\<rparr>, \<lparr>cmd = CHR ''z'', numbers = []\<rparr>]]\<rparr>))
   \<and> arity_ok \<lparr>cmd = CHR ''M'', numbers = [4, 0]\<rparr> \<and> arity_ok \<lparr>cmd = CHR ''z'', numbers = []\<rparr>"
proof -
  let ?p = "example_path\<lparr>subpaths := subpaths example_path @ map (\<lambda>sp. concat (map expand_spec sp)) example_subpaths\<rparr>"
  from ExpandCommands_exact_arity [of example_subpaths example_path ?p] example_whole
  have r: "ExpandCommands example_subpaths example_path = Some (Inr ?p)"
    and "\<exists>new. subpaths ?p = subpaths example_path @ new \<and> length new = length example_subpaths
              \<and> (\<forall>sp\<in>set new. \<forall>c\<in>set sp. arity_ok c)"
    by blast+
  then have "\<forall>sp\<in>set (map (\<lambda>sp. concat (map expand_spec sp)) example_subpaths). \<forall>c\<in>set sp. arity_ok c"
    by auto
  then have "arity_ok \<lparr>cmd = CHR ''M'', numbers = [4, 0]\<rparr> \<and> arity_ok \<lparr>cmd = CHR ''z'', numbers = []\<rparr>"
    unfolding example_spec by simp
  with r show ?thesis
    unfolding example_spec by (simp add: example_path_def)
qed

text \<open>
  Claim C2. A raw command whose count of numbers is not a multiple of its arity should
  be rejected as a malformed command before tessellation. \<^verbatim>\<open>ExpandCommands\<close> compares
  no count with the arity: on the move command with three numbers of the path data
  \<^verbatim>\<open>M 1,2,3\<close> the second round of the copying loop reads \<^verbatim>\<open>xCmd.numbers[3]\<close>, which
  does not exist. Nothing is rejected and nothing is reported.
\<close>

theorem ExpandCommands_odd_move_not_rejected:
  "ExpandCommands [[\<lparr>cmd = CHR ''M'', numbers = [1, 2, 3]\<rparr>]] example_path
     = Some (Inl OutOfBounds)"
  by (simp add: expand_command_def numberCount_of_def expand_while_step expand_while_done
        copy_group.simps)

lemma copy_group_fits:
  assumes "copy_group xs n nc 0 [] = Inr ns" and "0 < nc"
  shows "n + nc \<le> length xs"
proof (rule ccontr)
  assume "\<not> n + nc \<le> length xs"
  then have "length xs < n + nc" by simp
  from copy_group_short [OF assms(2) this, of "[]"] assms(1) show False by simp
qed

lemma expand_while_returns_whole:
  assumes e: "expand_while xCmd0 nc0 n0 sp0 = Some r0"
  shows "\<forall>sp'. r0 = Inr sp' \<longrightarrow> n0 \<le> length (numbers xCmd0) \<longrightarrow>
           n0 = length (numbers xCmd0)
           \<or> (0 < nc0 \<and> (length (numbers xCmd0) - n0) mod nc0 = 0)"
proof (rule expand_while.raw_induct
    [where P = "\<lambda>xCmd nc n sp r. \<forall>sp'. r = Inr sp' \<longrightarrow> n \<le> length (numbers xCmd) \<longrightarrow>
           n = length (numbers xCmd) \<or> (0 < nc \<and> (length (numbers xCmd) - n) mod nc = 0)", OF _ e])
  fix f :: "SVGCommand \<Rightarrow> nat \<Rightarrow> nat \<Rightarrow> SVGCommand list \<Rightarrow> (error + SVGCommand list) option"
  fix xCmd nc n sp r
  assume IH: "\<And>xCmd nc n sp r. f xCmd nc n sp = Some r \<Longrightarrow>
           \<forall>sp'. r = Inr sp' \<longrightarrow> n \<le> length (numbers xCmd) \<longrightarrow>
           n = length (numbers xCmd) \<or> (0 < nc \<and> (length (numbers xCmd) - n) mod nc = 0)"
  assume step: "(if n < length (numbers xCmd)
      then (case copy_group (numbers xCmd) n nc 0 [] of
              Inl e \<Rightarrow> Some (Inl e)
            | Inr ns \<Rightarrow> f xCmd nc (n + nc) (sp @ [\<lparr>cmd = cmd xCmd, numbers = ns\<rparr>]))
      else Some (Inr sp)) = Some r"
  show "\<forall>sp'. r = Inr sp' \<longrightarrow> n \<le> length (numbers xCmd) \<longrightarrow>
           n = length (numbers xCmd) \<or> (0 < nc \<and> (length (numbers xCmd) - n) mod nc = 0)"
  proof (intro allI impI)
    fix sp' assume r: "r = Inr sp'" and le: "n \<le> length (numbers xCmd)"
    let ?len = "length (numbers xCmd)"
    show "n = ?len \<or> (0 < nc \<and> (?len - n) mod nc = 0)"
    proof (cases "n < ?len")
      case False
      with le show ?thesis by simp
    next
      case True
      with step r obtain ns where ns: "copy_group (numbers xCmd) n nc 0 [] = Inr ns"
        and f: "f xCmd nc (n + nc) (sp @ [\<lparr>cmd = cmd xCmd, numbers = ns\<rparr>]) = Some (Inr sp')"
        by (auto split: sum.splits)
      show ?thesis
      proof (cases "nc = 0")
        case True
        with IH [OF f] le \<open>n < ?len\<close> show ?thesis by simp
      next
        case False
        then have pos: "0 < nc" by simp
        from copy_group_fits [OF ns pos] have fit: "n + nc \<le> ?len" .
        from IH [OF f] fit
        have c: "n + nc = ?len \<or> (0 < nc \<and> (?len - (n + nc)) mod nc = 0)" by simp
        have eq: "?len - n = (?len - (n + nc)) + nc" using fit by simp
        have "(?len - n) mod nc = 0"
        proof (cases "n + nc = ?len")
          case True
          then have "?len - n = nc" by simp
          then show ?thesis by simp
        next
          case False
          with c have "(?len - (n + nc)) mod nc = 0" by simp
          then show ?thesis by (subst eq) simp
        qed
        with pos show ?thesis by simp
      qed
    qed
  qed
qed


lemma expand_command_returns_whole:
  assumes "expand_command c sp = Some (Inr sp')"
  shows "whole_groups c"
  using expand_while_returns_whole [of c "numberCount_of (cmd c)" 0 _ "Inr sp'"] assms
  by (auto simp: expand_command_def whole_groups_def)

lemma expand_subpath_returns_whole:
  "expand_subpath xs sp = Some (Inr sp') \<Longrightarrow> \<forall>c\<in>set xs. whole_groups c"
proof (induction xs arbitrary: sp)
  case Nil
  then show ?case by simp
next
  case (Cons x xs)
  from Cons.prems obtain sp1 where x: "expand_command x sp = Some (Inr sp1)"
    and xs: "expand_subpath xs sp1 = Some (Inr sp')"
    by (auto split: option.splits sum.splits)
  from expand_command_returns_whole [OF x] Cons.IH [OF xs] show ?case by simp
qed

lemma ExpandCommands_returns_whole:
  "ExpandCommands sps path = Some (Inr path') \<Longrightarrow> \<forall>sp\<in>set sps. \<forall>c\<in>set sp. whole_groups c"
proof (induction sps arbitrary: path)
  case Nil
  then show ?case by simp
next
  case (Cons x xs)
  from Cons.prems obtain sp where x: "expand_subpath x [] = Some (Inr sp)"
    and xs: "ExpandCommands xs (path\<lparr>subpaths := subpaths path @ [sp]\<rparr>) = Some (Inr path')"
    by (auto split: option.splits sum.splits)
  from expand_subpath_returns_whole [OF x] Cons.IH [OF xs] show ?case by simp
qed

text \<open>
  \<^verbatim>\<open>ExpandCommands\<close> returns exactly on the inputs all of whose commands carry whole
  groups of numbers; on any other input it reads outside the numbers or does not return.
\<close>

lemma ExpandCommands_returns_iff:
  "(\<exists>path'. ExpandCommands sps path = Some (Inr path'))
     \<longleftrightarrow> (\<forall>sp\<in>set sps. \<forall>c\<in>set sp. whole_groups c)"
  using ExpandCommands_returns_whole [of sps path] ExpandCommands_whole [of sps path] by blast

lemma expand_command_no_table_entry:
  "numberCount_of (cmd xCmd) = 0 \<Longrightarrow> numbers xCmd \<noteq> [] \<Longrightarrow> expand_command xCmd sp = None"
  by (simp add: expand_command_def expand_while_stuck)

text \<open>
  Claim C10. Command expansion should return on every finite command list. The letter
  \<^verbatim>\<open>Q\<close> is in the lookup string of the tokenizer but has no count in the table of
  \<^verbatim>\<open>ExpandCommands\<close>: on the commands of the path data \<^verbatim>\<open>M 0,0 Q 1,1 2,2\<close> the loop
  \<^verbatim>\<open>while (n < size)\<close> adds 0 to \<^verbatim>\<open>n\<close> in every round and never returns.
\<close>

theorem ExpandCommands_quadratic_never_returns:
  "ExpandCommands
     [[\<lparr>cmd = CHR ''M'', numbers = [0, 0]\<rparr>, \<lparr>cmd = CHR ''Q'', numbers = [1, 1, 2, 2]\<rparr>]]
     example_path = None"
  by (simp add: expand_command_def numberCount_of_def expand_while_stuck expand_while_step
        expand_while_done copy_group.simps)

section \<open>Properties of the command parser\<close>










text \<open>
  A path element whose only attribute is the path data: the tokens that
  \<^verbatim>\<open>PathCommands\<close> receives are the pieces of the value cut at the delimiter string
  \<^verbatim>\<open>" "\<close>.
\<close>

lemma PathAttribs_path_data:
  assumes "lowercase ''d'' = ''d''"
  shows "PathAttribs split atof stod lowercase resolution (Some [(''d'', pathData)]) path =
           (case PathCommands split atof resolution (split pathData '' '')
                   (path\<lparr>transform := Identity\<rparr>) of
              None \<Rightarrow> None
            | Some (Inl e) \<Rightarrow> Some (Inl e)
            | Some (Inr (ok, path', diags)) \<Rightarrow> Some (Inr (ok, path', diags)))"
  using assms by (simp add: PathAttribs_def split: option.splits sum.splits)




lemma PathCommands_loop_no_command:
  "\<forall>t\<in>set tokens. \<not> is_new_command t \<Longrightarrow>
   \<exists>nums'. PathCommands_loop split atof tokens (cmds, lastCmd, nums) = (cmds, lastCmd, nums')"
  by (induction tokens arbitrary: nums) auto

lemma PathCommands_cmds_no_command:
  "\<forall>t\<in>set tokens. \<not> is_new_command t \<Longrightarrow> PathCommands_cmds split atof tokens = []"
  using PathCommands_loop_no_command [of tokens split atof "[]" "CHR ''x''" "[]"]
  by (auto simp: PathCommands_cmds_def)

text \<open>
  A token list without a command token: \<^verbatim>\<open>SplitSubpaths\<close> reports the empty command
  list and returns \<^verbatim>\<open>false\<close>, \<^verbatim>\<open>PathCommands\<close> goes on and returns \<^verbatim>\<open>true\<close>.
\<close>

lemma PathCommands_no_command:
  assumes "\<forall>t\<in>set tokens. \<not> is_new_command t"
  shows "PathCommands split atof resolution tokens path =
           Some (Inr (True, path\<lparr>polylines :=
                        (if transform path \<noteq> Identity
                         then map (map (transform_point (transform path))) (polylines path)
                         else polylines path)\<rparr>,
                      [Err ''SVGPath has no commands'']))"
  using assms by (simp add: PathCommands_def PathCommands_cmds_no_command SplitSubpaths_def)

text \<open>The same at the entry point, for a path element without attributes.\<close>

lemma PathAttribs_no_path_data:
  "PathAttribs split atof stod lowercase resolution (Some []) example_path =
     Some (Inr (True, example_path, [Err ''SVGPath has no commands'']))"
  by (simp add: PathAttribs_def PathCommands_no_command example_path_def)

text \<open>
  Claim C1. For a token list that yields no command, \<^verbatim>\<open>PathCommands\<close> should report an
  error and return a failure indicator. On the empty token list and on the tokens
  \<^verbatim>\<open>10,20\<close>, \<^verbatim>\<open>30\<close> the error is reported, but the result is \<^verbatim>\<open>true\<close>: the \<^verbatim>\<open>false\<close> that
  \<^verbatim>\<open>SplitSubpaths\<close> returns is dropped.
\<close>

theorem PathCommands_no_commands_returns_true:
  "\<forall>split atof.
     PathCommands split atof (SVGLoader_resolution 10) [] example_path
       = Some (Inr (True, example_path, [Err ''SVGPath has no commands'']))
     \<and> PathCommands split atof (SVGLoader_resolution 10) [''10,20'', ''30''] example_path
       = Some (Inr (True, example_path, [Err ''SVGPath has no commands'']))"
  by (simp add: PathCommands_no_command is_new_command_def lookup_def example_path_def)

section \<open>Properties of curve tessellation\<close>


subsection \<open>Rounding\<close>







subsection \<open>The loop of the cubic curve\<close>









subsection \<open>How far the accumulated counter is from the multiples of the step\<close>






subsection \<open>The step of the constructor\<close>





subsection \<open>Ten samples\<close>
























subsection \<open>Arcs\<close>

lemma arcPath_straight:
  assumes "Distance p0 pEnd < 1 / 1000000 \<or> rx < 1 / 1000000 \<or> ry < 1 / 1000000"
  shows "arcPath p0 rx ry rotxDeg largeArc sweepDirection pEnd step points = Some (points @ [pEnd])"
proof -
  have d: "sqrt ((X p0 - X pEnd) * (X p0 - X pEnd) + (Y p0 - Y pEnd) * (Y p0 - Y pEnd))
             = Distance p0 pEnd"
    by (simp add: Distance_def)
  show ?thesis
    unfolding arcPath_def Let_def d using assms by simp
qed

text \<open>
  Claim C5. An arc whose start and end points are less than \<open>1e-6\<close> apart, or whose
  radius \<open>rx\<close> or \<open>ry\<close> is below \<open>1e-6\<close>, adds exactly one point, its end point: so does
  \<^verbatim>\<open>arcPath\<close>, and so does the tessellation of an absolute and of a relative arc command
  with these seven numbers (whose two flags can be cast to \<^verbatim>\<open>unsigned int\<close>), which
  also moves the current point to the end point.
\<close>

theorem arc_degenerate:
  assumes "Distance p0 pEnd < 1 / 1000000 \<or> rx < 1 / 1000000 \<or> ry < 1 / 1000000"
  shows "arcPath p0 rx ry rotxDeg largeArc sweepDirection pEnd step points = Some (points @ [pEnd])
       \<and> (to_uint fa = Inr largeArc \<and> to_uint fs = Inr sweepDirection \<longrightarrow>
            SubpathToPolyline_switch step
              \<lparr>cmd = CHR ''A'', numbers = [rx, ry, rotxDeg, fa, fs, X pEnd, Y pEnd]\<rparr>
              p0 points diags = Some (Inr (pEnd, points @ [pEnd], diags))
          \<and> SubpathToPolyline_switch step
              \<lparr>cmd = CHR ''a'', numbers = [rx, ry, rotxDeg, fa, fs, X pEnd - X p0, Y pEnd - Y p0]\<rparr>
              p0 points diags = Some (Inr (pEnd, points @ [pEnd], diags)))"
  using arcPath_straight [OF assms, of rotxDeg largeArc sweepDirection step points]
  by (simp add: SubpathToPolyline_switch_def with_log_def)

text \<open>
  The theorem at an arc with radius \<open>rx = 0\<close> and at an arc that ends where it starts, as
  functions and as commands.
\<close>

theorem arc_degenerate_witness:
  "arcPath (0, 0) 0 5 30 0 1 (10, 0) (SVGLoader_resolution 10) [(0, 0)] = Some [(0, 0), (10, 0)]
   \<and> SubpathToPolyline_switch (SVGLoader_resolution 10)
        \<lparr>cmd = CHR ''A'', numbers = [0, 5, 30, 0, 1, 10, 0]\<rparr> (0, 0) [(0, 0)] []
       = Some (Inr ((10, 0), [(0, 0), (10, 0)], []))
   \<and> arcPath (1, 2) 5 5 0 1 1 (1, 2) (SVGLoader_resolution 10) [(1, 2)] = Some [(1, 2), (1, 2)]
   \<and> SubpathToPolyline_switch (SVGLoader_resolution 10)
        \<lparr>cmd = CHR ''a'', numbers = [5, 5, 0, 1, 1, 0, 0]\<rparr> (1, 2) [(1, 2)] []
       = Some (Inr ((1, 2), [(1, 2), (1, 2)], []))"
proof -
  have c: "to_uint 0 = Inr 0" "to_uint 1 = Inr 1" by (simp_all add: to_uint_def)
  have d: "Distance (0, 0) (10, 0) < 1 / 1000000 \<or> (0::real) < 1 / 1000000 \<or> (5::real) < 1 / 1000000"
    "Distance (1, 2) (1, 2) < 1 / 1000000 \<or> (5::real) < 1 / 1000000 \<or> (5::real) < 1 / 1000000"
    by (simp_all add: Distance_def)
  from arc_degenerate [OF d(1), of 30 0 1 "SVGLoader_resolution 10" "[(0, 0)]" 0 1 "[]"]
       arc_degenerate [OF d(2), of 0 1 1 "SVGLoader_resolution 10" "[(1, 2)]" 1 1 "[]"] c
  show ?thesis by simp
qed

section \<open>Properties of the transform parser\<close>

text \<open>The early returns for a value that is empty or has no opening parenthesis.\<close>

lemma ParseTransformMatrixStr_empty:
  "ParseTransformMatrixStr split stod [] = Inr (Identity, [Err ''no data for ParseTransformMatrixStr''])"
  by (simp add: ParseTransformMatrixStr_def)

lemma ParseTransformMatrixStr_no_parenthesis:
  "transformStr \<noteq> [] \<Longrightarrow> length (split transformStr ''('') < 2 \<Longrightarrow>
   ParseTransformMatrixStr split stod transformStr = Inr (Identity, [Err ''Invalid path transform''])"
  by (simp add: ParseTransformMatrixStr_def Let_def)

text \<open>
  Values on which the parser falls back to the identity: \<^verbatim>\<open>scale\<close> with three
  parameters, \<^verbatim>\<open>rotate\<close> with two, an unknown form; and a value it accepts.
\<close>

lemma ParseTransformMatrixStr_fallback_examples:
  "ParseTransformMatrixStr strtok_split stod_decimal ''scale(1,2,3)''
     = Inr (Identity, [Err ''Unsupported scale transform with more than 2 parameters''])
   \<and> ParseTransformMatrixStr strtok_split stod_decimal ''rotate(10,20)''
     = Inr (Identity,
         [Err ''Unsupported rotate transform. Only angle and optional x y are supported''])
   \<and> ParseTransformMatrixStr strtok_split stod_decimal ''flip(1)''
     = Inr (Identity, [Err ''Unknown transformation''])"
  by (simp add: ParseTransformMatrixStr_def strtok_split_def)

lemma translate_parsed:
  "ParseTransformMatrixStr strtok_split stod_decimal ''translate(10,-2.5)''
     = Inr (Matrix3d 1 0 10 0 1 (- 5 / 2) 0 0 1, [])"
  by (simp add: ParseTransformMatrixStr_def strtok_split_def stod_decimal_def is_digit_def)

text \<open>
  Claim C9. A recognized form with a parameter count outside its range should give the
  identity matrix and a diagnostic, not a failure. The parser counts the pieces that
  \<^verbatim>\<open>split\<close> cuts at the commas from what follows the opening parenthesis. For
  \<^verbatim>\<open>scale()\<close> and \<^verbatim>\<open>rotate()\<close>, which have no parameter, that is the one piece \<^verbatim>\<open>)\<close>: the
  test of the count passes, and \<^verbatim>\<open>stod\<close> is called on \<^verbatim>\<open>)\<close> and throws. Whatever
  \<^verbatim>\<open>stod\<close> does, the result is not the identity with a diagnostic.
\<close>

theorem ParseTransformMatrixStr_no_parameter_throws:
  "ParseTransformMatrixStr strtok_split stod_decimal ''scale()'' = Inl InvalidArgument
   \<and> ParseTransformMatrixStr strtok_split stod_decimal ''rotate()'' = Inl InvalidArgument
   \<and> (\<forall>stod. ParseTransformMatrixStr strtok_split stod ''scale()'' =
         (case stod '')'' of
            None \<Rightarrow> Inl InvalidArgument
          | Some x \<Rightarrow> Inr (Matrix3d x 0 0 0 x 0 0 0 1, [])))"
  by (simp add: ParseTransformMatrixStr_def strtok_split_def stod_decimal_def is_digit_def
        split: option.splits)

section \<open>Properties of the polygon reconstructor\<close>

lemma polys_segments_append:
  "polys_segments tol (xs @ ys) segs diags =
     (case polys_segments tol xs segs diags of
        Inl e \<Rightarrow> Inl e
      | Inr (segs', diags') \<Rightarrow> polys_segments tol ys segs' diags')"
  by (induction xs arbitrary: segs diags) (auto split: list.splits prod.splits)

lemma paths_segments_concat:
  "paths_segments tol paths segs diags =
     polys_segments tol (concat (map polylines paths)) segs diags"
  by (induction paths arbitrary: segs diags)
     (auto simp: polys_segments_append split: sum.splits)

lemma PathsToClosedPolylines_concat:
  "concat (map polylines paths) = polys \<Longrightarrow>
   PathsToClosedPolylines paths tol closedPolys openPolys =
   PathsToClosedPolylines [example_path\<lparr>polylines := polys\<rparr>] tol closedPolys openPolys"
  by (simp add: PathsToClosedPolylines_def paths_segments_concat)

lemma kept_points_length: "length (kept_points tol s ps) \<le> length ps"
  by (induction ps arbitrary: s) (auto simp: le_SucI)

lemma poly_segments_thinned:
  "poly_segments tol s ps segs diags =
     (segs @ zip (s # kept_points tol s ps) (kept_points tol s ps),
      diags @ replicate (length ps - length (kept_points tol s ps)) (Msg ''Ignoring short segment''))"
proof (induction ps arbitrary: s segs diags)
  case Nil
  then show ?case by simp
next
  case (Cons p ps)
  show ?case
  proof (cases "Distance p s < tol")
    case True
    have "Suc (length ps) - length (kept_points tol s ps) = Suc (length ps - length (kept_points tol s ps))"
      using kept_points_length [of tol s ps] by simp
    with True Cons.IH [of s segs "diags @ [Msg ''Ignoring short segment'']"] show ?thesis
      by (simp add: replicate_app_Cons_same)
  next
    case False
    with Cons.IH [of p "segs @ [(s, p)]" diags] show ?thesis by simp
  qed
qed

lemma polys_segments_thinned:
  "\<forall>poly\<in>set polys. poly \<noteq> [] \<Longrightarrow>
   polys_segments tol polys segs diags =
     Inr (segs @ concat (map (\<lambda>poly. consecutive_pairs (thinned tol poly)) polys),
          diags @ concat (map (short_reports tol) polys))"
proof (induction polys arbitrary: segs diags)
  case Nil
  then show ?case by simp
next
  case (Cons poly polys)
  then obtain p ps where poly: "poly = p # ps" by (cases poly) auto
  from Cons.prems have rest: "\<forall>poly\<in>set polys. poly \<noteq> []" by simp
  show ?case
    using Cons.IH [OF rest]
    by (simp add: poly poly_segments_thinned consecutive_pairs_def thinned_def short_reports_def)
qed

lemma kept_points_all:
  "\<forall>s\<in>set (zip (s0 # ps) ps). \<not> Distance (snd s) (fst s) < tol \<Longrightarrow> kept_points tol s0 ps = ps"
  by (induction ps arbitrary: s0) auto

lemma kept_points_far:
  "\<forall>s\<in>set (zip (s0 # kept_points tol s0 ps) (kept_points tol s0 ps)). \<not> Distance (snd s) (fst s) < tol"
  by (induction ps arbitrary: s0) auto

lemma thinned_far:
  "\<forall>s\<in>set (consecutive_pairs (thinned tol poly)). \<not> Distance (snd s) (fst s) < tol"
  using kept_points_far by (cases poly) (auto simp: thinned_def consecutive_pairs_def)

lemma thinned_all:
  "\<forall>s\<in>set (consecutive_pairs poly). \<not> Distance (snd s) (fst s) < tol \<Longrightarrow> thinned tol poly = poly"
  by (cases poly) (auto simp: thinned_def consecutive_pairs_def kept_points_all)

lemma Distance_same_y: "Distance (a, y) (b, y) = \<bar>a - b\<bar>"
  by (simp add: Distance_def)

text \<open>
  Claim C7, as amended. For polylines that are not empty, the initial segments are,
  polyline by polyline, the consecutive pairs of the thinned polyline: a point closer
  than the tolerance to the point kept last is dropped and reported, every other point
  is kept and joined to the point kept last. A polyline none of whose consecutive pairs
  is shorter than the tolerance is left as it is, so that its segments are exactly its
  consecutive pairs.
\<close>

theorem initial_segments_thinned:
  assumes "\<forall>poly\<in>set (concat (map polylines paths)). poly \<noteq> []"
  shows "paths_segments tol paths [] [] =
           Inr (concat (map (\<lambda>poly. consecutive_pairs (thinned tol poly))
                          (concat (map polylines paths))),
                concat (map (short_reports tol) (concat (map polylines paths))))
       \<and> (\<forall>poly. (\<forall>s\<in>set (consecutive_pairs poly). \<not> Distance (snd s) (fst s) < tol)
                    \<longrightarrow> thinned tol poly = poly)
       \<and> (\<forall>poly. \<forall>s\<in>set (consecutive_pairs (thinned tol poly)).
                    \<not> Distance (snd s) (fst s) < tol)"
  using polys_segments_thinned [OF assms, of tol "[]" "[]"] thinned_all [of _ tol]
    thinned_far [of tol]
  by (simp add: paths_segments_concat)

text \<open>
  The theorem at the polyline \<open>(0,0), (1,0), (5,0), (9,0)\<close> with tolerance 2: the second
  point is dropped, and the first segment runs from the first point to the third.
\<close>

theorem initial_segments_thinned_witness:
  "paths_segments 2 [example_path\<lparr>polylines := [[(0, 0), (1, 0), (5, 0), (9, 0)]]\<rparr>] [] []
     = Inr ([((0, 0), (5, 0)), ((5, 0), (9, 0))], [Msg ''Ignoring short segment''])
   \<and> thinned 2 [(0, 0), (5, 0), (9, 0)] = [(0, 0), (5, 0), (9, 0)]"
  using initial_segments_thinned
          [of "[example_path\<lparr>polylines := [[(0, 0), (1, 0), (5, 0), (9, 0)]]\<rparr>]" 2]
  by (simp add: thinned_def consecutive_pairs_def short_reports_def Distance_same_y)

text \<open>
  Counterexample to claim C7 as stated, on the same polyline: the segments of the code
  are not the consecutive pairs without the short ones, which would begin with the pair
  \<open>(1,0), (5,0)\<close>; the first segment of the code is no consecutive pair of the polyline.
\<close>

theorem initial_segments_counterexample:
  "paths_segments 2 [example_path\<lparr>polylines := [[(0, 0), (1, 0), (5, 0), (9, 0)]]\<rparr>] [] []
     = Inr ([((0, 0), (5, 0)), ((5, 0), (9, 0))], [Msg ''Ignoring short segment''])
   \<and> claimed_segments 2 [(0, 0), (1, 0), (5, 0), (9, 0)]
     = [((1, 0), (5, 0)), ((5, 0), (9, 0))]
   \<and> ((0, 0), (5, 0)) \<notin> set (consecutive_pairs [(0, 0), (1, 0), (5, 0), (9, 0)])"
  by (simp add: claimed_segments_def consecutive_pairs_def Distance_same_y)

text \<open>All the arrangements of the four edges, and of three of them, by evaluation.\<close>

lemma all4: "list_all one_closed_square (arrangements 4)"
  by (simp add: arrangements_def one_closed_square_def reconstruct_def example_path_def
        PathsToClosedPolylines_def unit_square_edges_def orient_def Distance_def
        Vector2dCompare_def grow_polyline.simps eval_nat_numeral)

lemma all3: "list_all open_chains_of_three (arrangements 3)"
  by (simp add: arrangements_def open_chains_of_three_def reconstruct_def example_path_def
        starts_at_free_end_def
        PathsToClosedPolylines_def unit_square_edges_def orient_def Distance_def
        Vector2dCompare_def grow_polyline.simps eval_nat_numeral)

lemma in_arrangements:
  assumes "distinct es" "set es \<subseteq> set unit_square_edges" "length fs = length es"
  shows "map2 orient es fs \<in> set (arrangements (length es))"
proof -
  have es: "es \<in> set (filter distinct (List.n_lists (length es) unit_square_edges))"
    using assms(1,2) by (simp add: set_n_lists)
  have "set fs \<subseteq> set [False, True]" by auto
  then have fs: "fs \<in> set (List.n_lists (length es) [False, True])"
    using assms(3) by (simp add: set_n_lists)
  from es fs show ?thesis
    unfolding arrangements_def by auto
qed

text \<open>
  Claim C3, as amended. The edges of the unit square are supplied as polylines of two
  points, in any order and any orientation, at tolerance \<open>1e-5\<close>. All four edges give
  exactly one closed chain, of 5 points whose last is the first, no open chain and no
  diagnostic. Three of the edges give no closed chain; they give exactly one open chain,
  of 4 points, when the first segment supplied starts at a free end of the three-edge
  path, and otherwise two or three open chains of fewer than 4 points each: a chain
  grows at its tail only.
\<close>

theorem unit_square_reconstruction:
  assumes "distinct es" and "set es \<subseteq> set unit_square_edges" and "length fs = length es"
    and "concat (map polylines paths) = map2 orient es fs"
  shows "(length es = 4 \<longrightarrow>
            (\<exists>c. PathsToClosedPolylines paths (1 / 100000) [] [] = Inr ([c], [], [])
                  \<and> length c = 5 \<and> hd c = last c))
       \<and> (length es = 3 \<longrightarrow>
            (\<exists>opens diags.
               PathsToClosedPolylines paths (1 / 100000) [] [] = Inr ([], opens, diags)
               \<and> (if starts_at_free_end (map2 orient es fs)
                   then length opens = 1 \<and> length (hd opens) = 4
                   else (length opens = 2 \<or> length opens = 3) \<and> (\<forall>c\<in>set opens. length c < 4))))"
proof (intro conjI impI)
  let ?polys = "map2 orient es fs"
  have r: "PathsToClosedPolylines paths (1 / 100000) [] [] = reconstruct ?polys"
    using PathsToClosedPolylines_concat [OF assms(4)] by (simp add: reconstruct_def)
  have mem: "?polys \<in> set (arrangements (length es))"
    using assms(1-3) by (rule in_arrangements)
  {
    assume "length es = 4"
    with mem all4 have "one_closed_square ?polys" by (simp add: list_all_iff)
    then obtain cs where "reconstruct ?polys = Inr (cs, [], [])" "length cs = 1"
      "length (hd cs) = 5" "hd (hd cs) = last (hd cs)"
      unfolding one_closed_square_def by (auto split: sum.splits prod.splits)
    moreover from this have "cs = [hd cs]" by (cases cs) auto
    ultimately show "\<exists>c. PathsToClosedPolylines paths (1 / 100000) [] [] = Inr ([c], [], [])
                  \<and> length c = 5 \<and> hd c = last c"
      unfolding r by metis
  }
  {
    assume "length es = 3"
    with mem all3 have "open_chains_of_three ?polys" by (simp add: list_all_iff)
    then show "\<exists>opens diags.
               PathsToClosedPolylines paths (1 / 100000) [] [] = Inr ([], opens, diags)
               \<and> (if starts_at_free_end ?polys
                   then length opens = 1 \<and> length (hd opens) = 4
                   else (length opens = 2 \<or> length opens = 3) \<and> (\<forall>c\<in>set opens. length c < 4))"
      unfolding r open_chains_of_three_def
      by (auto simp: list_all_iff split: sum.splits prod.splits if_splits)
  }
qed

text \<open>
  The theorem at the four edges in the order top, bottom, left, right with two of them
  reversed, and at the three edges bottom, right, top in drawing order.
\<close>

theorem unit_square_reconstruction_witness:
  "PathsToClosedPolylines
     [example_path\<lparr>polylines :=
        [[(0, 1), (1, 1)], [(0, 0), (1, 0)], [(0, 1), (0, 0)], [(1, 1), (1, 0)]]\<rparr>]
     (1 / 100000) [] []
     = Inr ([[(0, 1), (1, 1), (1, 0), (0, 0), (0, 1)]], [], [])
   \<and> PathsToClosedPolylines
     [example_path\<lparr>polylines := [[(0, 0), (1, 0)], [(1, 0), (1, 1)], [(1, 1), (0, 1)]]\<rparr>]
     (1 / 100000) [] []
     = Inr ([], [[(0, 0), (1, 0), (1, 1), (0, 1)]],
            [Msg ''Line segments that are not part of a closed paths have been found''])"
proof -
  let ?es4 = "[((1, 1), (0, 1)), ((0, 0), (1, 0)), ((0, 1), (0, 0)), ((1, 0), (1, 1))] :: segment list"
  let ?fs4 = "[True, False, False, True]"
  let ?p4 = "[example_path\<lparr>polylines :=
        [[(0, 1), (1, 1)], [(0, 0), (1, 0)], [(0, 1), (0, 0)], [(1, 1), (1, 0)]]\<rparr>]"
  let ?es3 = "[((0, 0), (1, 0)), ((1, 0), (1, 1)), ((1, 1), (0, 1))] :: segment list"
  let ?fs3 = "[False, False, False]"
  let ?p3 = "[example_path\<lparr>polylines := [[(0, 0), (1, 0)], [(1, 0), (1, 1)], [(1, 1), (0, 1)]]\<rparr>]"
  have a4: "distinct ?es4" "set ?es4 \<subseteq> set unit_square_edges" "length ?fs4 = length ?es4"
    "concat (map polylines ?p4) = map2 orient ?es4 ?fs4"
    by (simp_all add: unit_square_edges_def orient_def)
  have a3: "distinct ?es3" "set ?es3 \<subseteq> set unit_square_edges" "length ?fs3 = length ?es3"
    "concat (map polylines ?p3) = map2 orient ?es3 ?fs3"
    by (simp_all add: unit_square_edges_def orient_def)
  from unit_square_reconstruction [OF a4] unit_square_reconstruction [OF a3]
  show ?thesis
    by (simp add: PathsToClosedPolylines_def example_path_def Distance_def
          Vector2dCompare_def grow_polyline.simps)
qed

text \<open>
  Counterexample to claim C3 as stated: the left edge is removed and the right edge is
  supplied first, then the bottom and the top edge. The chain that starts with the right
  edge takes up the top edge at its tail and ends there, since the bottom edge meets its
  head; the bottom edge is left as a second open chain.
\<close>

theorem three_edges_middle_first_counterexample:
  "PathsToClosedPolylines
     [example_path\<lparr>polylines := [[(1, 0), (1, 1)], [(0, 0), (1, 0)], [(1, 1), (0, 1)]]\<rparr>]
     (1 / 100000) [] []
   = Inr ([], [[(1, 0), (1, 1), (0, 1)], [(0, 0), (1, 0)]],
          [Msg ''Line segments that are not part of a closed paths have been found'',
           Msg ''Line segments that are not part of a closed paths have been found''])"
  by (simp add: PathsToClosedPolylines_def example_path_def Distance_def
        Vector2dCompare_def grow_polyline.simps)

section \<open>The pipeline on a sample path\<close>

lemma Distance_same_x: "Distance (x, a) (x, b) = \<bar>a - b\<bar>"
  by (simp add: Distance_def)

text \<open>
  The path data \<^verbatim>\<open>M 0,0 L 10,0 L 10,10 L 0,10 z\<close> through the whole of \<^verbatim>\<open>PathCommands\<close>:
  one subpath, one closed polyline of five points, and the message that the close
  command writes when it adds the first point.
\<close>

lemma strtok_square:
  "strtok_split ''M 0,0 L 10,0 L 10,10 L 0,10 z'' '' ''
     = [''M'', ''0,0'', ''L'', ''10,0'', ''L'', ''10,10'', ''L'', ''0,10'', ''z'']"
  by (simp add: strtok_split_def)

lemma PathCommands_square:
  "PathCommands strtok_split atof_digits (SVGLoader_resolution 10)
     (strtok_split ''M 0,0 L 10,0 L 10,10 L 0,10 z'' '' '') example_path
   = Some (Inr (True,
        example_path\<lparr>
          subpaths := [[\<lparr>cmd = CHR ''M'', numbers = [0, 0]\<rparr>, \<lparr>cmd = CHR ''L'', numbers = [10, 0]\<rparr>,
                        \<lparr>cmd = CHR ''L'', numbers = [10, 10]\<rparr>, \<lparr>cmd = CHR ''L'', numbers = [0, 10]\<rparr>,
                        \<lparr>cmd = CHR ''z'', numbers = []\<rparr>]],
          polylines := [[(0, 0), (10, 0), (10, 10), (0, 10), (0, 0)]]\<rparr>,
        [Err ''Zz'']))"
  unfolding strtok_square
  by (simp add: PathCommands_def PathCommands_cmds_def is_new_command_def lookup_def
        strtok_split_def atof_digits_def SplitSubpaths_def
        expand_command_def numberCount_of_def expand_while_step expand_while_done
        copy_group.simps SubpathToPolyline_def SubpathToPolyline_switch_def with_log_def
        Distance_same_x example_path_def Let_def)

end
